theory Spec2Isabelle
  imports Main
begin

section \<open>The calendar arithmetic behind JavaScript's Date\<close>

text \<open>
  \<^verbatim>\<open>src/App.js\<close> reads and moves dates only through the built-in \<^verbatim>\<open>Date\<close> object
  (\<^verbatim>\<open>getDay\<close>, \<^verbatim>\<open>getFullYear\<close>, \<^verbatim>\<open>getMonth\<close>, \<^verbatim>\<open>getDate\<close>, \<^verbatim>\<open>setDate\<close>,
  \<^verbatim>\<open>new Date(year, month, day)\<close>, \<^verbatim>\<open>toDateString\<close>). A Date holds a time value in
  milliseconds; the functions below are the ones ECMAScript defines on time values
  (Day, DayFromYear, YearFromTime, MonthFromTime, DateFromTime, WeekDay, MakeDay,
  MakeDate), under ECMAScript's names.

  The time value kept here is the one on the local time line (all the methods the
  source calls are the local-time ones), and every Date is a valid one: the time zone
  offset and the Invalid Date that ECMAScript produces 100,000,000 days away from 1970
  are outside the model.
\<close>

type_synonym jsdate = int

definition msPerDay :: int where
  "msPerDay = 86400000"

definition Day :: "int \<Rightarrow> int" where
  "Day t = t div msPerDay"

definition TimeWithinDay :: "int \<Rightarrow> int" where
  "TimeWithinDay t = t mod msPerDay"

definition DaysInYear :: "int \<Rightarrow> int" where
  "DaysInYear y =
     (if y mod 4 \<noteq> 0 then 365
      else if y mod 100 \<noteq> 0 then 366
      else if y mod 400 \<noteq> 0 then 365
      else 366)"

definition DayFromYear :: "int \<Rightarrow> int" where
  "DayFromYear y =
     365 * (y - 1970) + (y - 1969) div 4 - (y - 1901) div 100 + (y - 1601) div 400"

subsection \<open>One year further is \<open>DaysInYear\<close> days further\<close>

lemma div_step:
  assumes "1 < (n::int)"
  shows "(a + 1) div n = a div n + (if (a + 1) mod n = 0 then 1 else 0)"
proof (cases "a mod n + 1 = n")
  case True
  have "a = n * (a div n) + a mod n" by simp
  with True have "a + 1 = n * (a div n) + n" by linarith
  then have "a + 1 = (a div n + 1) * n" by (simp add: algebra_simps)
  then have "(a + 1) div n = a div n + 1 \<and> (a + 1) mod n = 0"
    using assms
    by (metis mod_mult_self2_is_0 nonzero_mult_div_cancel_right not_one_less_zero)
  then show ?thesis by simp
next
  case False
  have r: "0 \<le> a mod n" "a mod n < n" using assms by simp_all
  with False have b: "0 \<le> a mod n + 1" "a mod n + 1 < n" by linarith+
  have eq: "a + 1 = n * (a div n) + (a mod n + 1)" by simp
  have "(a + 1) div n = a div n"
    using b by (intro int_div_pos_eq[OF eq])
  moreover have "(a + 1) mod n = a mod n + 1"
    using b by (intro int_mod_pos_eq[OF eq])
  ultimately show ?thesis using r by simp
qed

lemma mod_shift: "(y - n * k) mod n = y mod (n::int)"
  using mod_mult_self2[of y n "- k"] by simp

lemma DayFromYear_Suc: "DayFromYear (y + 1) = DayFromYear y + DaysInYear y"
proof -
  have a: "(y - 1968) div 4 = (y - 1969) div 4 + (if y mod 4 = 0 then 1 else 0)"
    using div_step[of 4 "y - 1969"] mod_shift[of y 4 492] by simp
  have b: "(y - 1900) div 100 = (y - 1901) div 100 + (if y mod 100 = 0 then 1 else 0)"
    using div_step[of 100 "y - 1901"] mod_shift[of y 100 19] by simp
  have c: "(y - 1600) div 400 = (y - 1601) div 400 + (if y mod 400 = 0 then 1 else 0)"
    using div_step[of 400 "y - 1601"] mod_shift[of y 400 4] by simp
  have d: "y mod 400 = 0 \<Longrightarrow> y mod 100 = 0" "y mod 100 = 0 \<Longrightarrow> y mod 4 = 0"
    using mod_mod_cancel[of 100 400 y] mod_mod_cancel[of 4 100 y] by simp_all
  define A B C where "A = (y - 1969) div 4" and "B = (y - 1901) div 100"
    and "C = (y - 1601) div 400"
  define p q r :: int where "p = (if y mod 4 = 0 then 1 else 0)"
    and "q = (if y mod 100 = 0 then 1 else 0)" and "r = (if y mod 400 = 0 then 1 else 0)"
  have s: "y + 1 - 1969 = y - 1968" "y + 1 - 1901 = y - 1900" "y + 1 - 1601 = y - 1600"
    "y + 1 - 1970 = y - 1969" by simp_all
  have e1: "DayFromYear (y + 1) = 365 * (y - 1969) + (A + p) - (B + q) + (C + r)"
    unfolding DayFromYear_def A_def B_def C_def p_def q_def r_def by (simp only: s a b c)
  have e0: "DayFromYear y = 365 * (y - 1970) + A - B + C"
    unfolding DayFromYear_def A_def B_def C_def by (rule refl)
  have e2: "DaysInYear y = 365 + p - q + r"
  proof (cases "y mod 4 = 0")
    case False
    have h: "y mod 100 \<noteq> 0" using d(2) False by metis
    have "y mod 400 \<noteq> 0" using d(1) h by metis
    with h False show ?thesis
      by (simp only: DaysInYear_def p_def q_def r_def if_False if_True) simp
  next
    case 4: True
    show ?thesis
    proof (cases "y mod 100 = 0")
      case False
      have "y mod 400 \<noteq> 0" using d(1) False by metis
      with 4 False show ?thesis
        by (simp only: DaysInYear_def p_def q_def r_def if_False if_True) simp
    next
      case True
      with 4 show ?thesis
        by (cases "y mod 400 = 0")
          (simp_all only: DaysInYear_def p_def q_def r_def if_False if_True, simp_all)
    qed
  qed
  show ?thesis unfolding e0 e1 e2 by (simp add: algebra_simps)
qed

lemma DaysInYear_cases: "DaysInYear y = 365 \<or> DaysInYear y = 366"
  unfolding DaysInYear_def by metis

lemma DayFromYear_less_Suc: "DayFromYear y + 365 \<le> DayFromYear (y + 1)"
  using DayFromYear_Suc[of y] DaysInYear_cases[of y] by linarith

lemma DayFromYear_pred_less: "DayFromYear (y - 1) + 365 \<le> DayFromYear y"
  using DayFromYear_less_Suc[of "y - 1"] by simp

subsection \<open>YearFromTime\<close>

text \<open>
  ECMAScript: \<^verbatim>\<open>YearFromTime(t)\<close> is the largest integer \<open>y\<close> such that
  \<^verbatim>\<open>TimeFromYear(y) \<le> t\<close>. \<open>year_from\<close> computes it by stepping from an estimate;
  \<open>YearFromTime_iff\<close> below shows that it is the year ECMAScript specifies.
\<close>

function year_from :: "int \<Rightarrow> int \<Rightarrow> int" where
  "year_from y d =
     (if DayFromYear (y + 1) \<le> d then year_from (y + 1) d
      else if d < DayFromYear y then year_from (y - 1) d
      else y)"
  by pat_completeness auto
termination
proof (relation "measure (\<lambda>(y, d).
    if DayFromYear (y + 1) \<le> d \<or> d < DayFromYear y then nat (abs (d - DayFromYear y)) else 0)")
  fix y d :: int
  assume "DayFromYear (y + 1) \<le> d"
  moreover note DayFromYear_less_Suc[of y] DayFromYear_less_Suc[of "y + 1"]
  ultimately show "((y + 1, d), (y, d)) \<in> measure (\<lambda>(y, d).
    if DayFromYear (y + 1) \<le> d \<or> d < DayFromYear y then nat (abs (d - DayFromYear y)) else 0)"
    by auto
next
  fix y d :: int
  assume "\<not> DayFromYear (y + 1) \<le> d" "d < DayFromYear y"
  moreover note DayFromYear_pred_less[of y]
  ultimately show "((y - 1, d), (y, d)) \<in> measure (\<lambda>(y, d).
    if DayFromYear (y + 1) \<le> d \<or> d < DayFromYear y then nat (abs (d - DayFromYear y)) else 0)"
    by auto
qed simp

declare year_from.simps [simp del]

definition YearFromTime :: "int \<Rightarrow> int" where
  "YearFromTime t = year_from (1970 + Day t div 366) (Day t)"

definition InLeapYear :: "int \<Rightarrow> int" where
  "InLeapYear t = (if DaysInYear (YearFromTime t) = 366 then 1 else 0)"

definition DayWithinYear :: "int \<Rightarrow> int" where
  "DayWithinYear t = Day t - DayFromYear (YearFromTime t)"

text \<open>The day within the year on which month \<open>m\<close> (0 to 11) starts; \<open>L\<close> is 1 in a leap year.\<close>

definition month_start :: "int \<Rightarrow> int \<Rightarrow> int" where
  "month_start m L =
     (if m = 0 then 0 else if m = 1 then 31 else if m = 2 then 59 + L
      else if m = 3 then 90 + L else if m = 4 then 120 + L else if m = 5 then 151 + L
      else if m = 6 then 181 + L else if m = 7 then 212 + L else if m = 8 then 243 + L
      else if m = 9 then 273 + L else if m = 10 then 304 + L else 334 + L)"

definition MonthFromTime :: "int \<Rightarrow> int" where
  "MonthFromTime t =
     (let d = DayWithinYear t; L = InLeapYear t in
      if d < 31 then 0 else if d < 59 + L then 1 else if d < 90 + L then 2
      else if d < 120 + L then 3 else if d < 151 + L then 4 else if d < 181 + L then 5
      else if d < 212 + L then 6 else if d < 243 + L then 7 else if d < 273 + L then 8
      else if d < 304 + L then 9 else if d < 334 + L then 10 else 11)"

definition DateFromTime :: "int \<Rightarrow> int" where
  "DateFromTime t = DayWithinYear t - month_start (MonthFromTime t) (InLeapYear t) + 1"

definition WeekDay :: "int \<Rightarrow> int" where
  "WeekDay t = (Day t + 4) mod 7"

definition MakeDay :: "int \<Rightarrow> int \<Rightarrow> int \<Rightarrow> int" where
  "MakeDay year month date =
     (let ym = year + month div 12; mn = month mod 12 in
      DayFromYear ym + month_start mn (if DaysInYear ym = 366 then 1 else 0) + date - 1)"

definition MakeDate :: "int \<Rightarrow> int \<Rightarrow> int" where
  "MakeDate day time = day * msPerDay + time"

lemma year_from_bounds:
  "DayFromYear (year_from y d) \<le> d \<and> d < DayFromYear (year_from y d + 1)"
proof (induction y d rule: year_from.induct)
  case (1 y d)
  show ?case
  proof (cases "DayFromYear (y + 1) \<le> d")
    case True
    then have "year_from y d = year_from (y + 1) d" by (subst year_from.simps) simp
    with 1(1)[OF True] show ?thesis by simp
  next
    case False
    show ?thesis
    proof (cases "d < DayFromYear y")
      case True
      with False have "year_from y d = year_from (y - 1) d" by (subst year_from.simps) simp
      with 1(2)[OF False True] show ?thesis by simp
    next
      case ge: False
      with False have "year_from y d = y" by (subst year_from.simps) simp
      with False ge show ?thesis by simp
    qed
  qed
qed

lemma DayFromYear_mono_nat: "DayFromYear y \<le> DayFromYear (y + int k)"
proof (induction k)
  case 0 show ?case by simp
next
  case (Suc k)
  have "y + int (Suc k) = y + int k + 1" by simp
  then have "DayFromYear (y + int k) \<le> DayFromYear (y + int (Suc k))"
    using DayFromYear_less_Suc[of "y + int k"] by (simp only:)
  with Suc show ?case by linarith
qed

lemma DayFromYear_mono: "y \<le> z \<Longrightarrow> DayFromYear y \<le> DayFromYear z"
  using DayFromYear_mono_nat[of y "nat (z - y)"] by simp

lemma year_unique:
  assumes "DayFromYear y \<le> d" "d < DayFromYear (y + 1)"
    and "DayFromYear z \<le> d" "d < DayFromYear (z + 1)"
  shows "y = z"
proof (rule ccontr)
  assume "y \<noteq> z"
  then consider "y + 1 \<le> z" | "z + 1 \<le> y" by linarith
  then show False
  proof cases
    case 1
    from DayFromYear_mono[OF 1] assms show False by linarith
  next
    case 2
    from DayFromYear_mono[OF 2] assms show False by linarith
  qed
qed

lemma YearFromTime_iff:
  "YearFromTime t = y \<longleftrightarrow> DayFromYear y \<le> Day t \<and> Day t < DayFromYear (y + 1)"
  unfolding YearFromTime_def
  using year_from_bounds[of "1970 + Day t div 366" "Day t"] year_unique[of _ "Day t" y]
  by blast

lemma DayWithinYear_bounds:
  "0 \<le> DayWithinYear t" "DayWithinYear t < DaysInYear (YearFromTime t)"
  using YearFromTime_iff[of t "YearFromTime t"] DayFromYear_Suc[of "YearFromTime t"]
  unfolding DayWithinYear_def by simp_all

lemma InLeapYear_cases: "InLeapYear t = 0 \<or> InLeapYear t = 1"
  unfolding InLeapYear_def by simp

lemma DaysInYear_InLeapYear: "DaysInYear (YearFromTime t) = 365 + InLeapYear t"
  using DaysInYear_cases[of "YearFromTime t"] unfolding InLeapYear_def by auto

lemma MonthFromTime_range: "MonthFromTime t \<in> {0, 1, 2, 3, 4, 5, 6, 7, 8, 9, 10, 11}"
  unfolding MonthFromTime_def Let_def by simp


section \<open>The Date methods the source calls\<close>

definition getDay :: "jsdate \<Rightarrow> int" where
  "getDay d = WeekDay d"

definition getFullYear :: "jsdate \<Rightarrow> int" where
  "getFullYear d = YearFromTime d"

definition getMonth :: "jsdate \<Rightarrow> int" where
  "getMonth d = MonthFromTime d"

definition getDate :: "jsdate \<Rightarrow> int" where
  "getDate d = DateFromTime d"

definition new_Date :: "int \<Rightarrow> int \<Rightarrow> int \<Rightarrow> jsdate" where
  "new_Date year month date =
     (let yr = (if 0 \<le> year \<and> year \<le> 99 then 1900 + year else year)
      in MakeDate (MakeDay yr month date) 0)"

definition setDate :: "jsdate \<Rightarrow> int \<Rightarrow> jsdate" where
  "setDate d dt =
     MakeDate (MakeDay (YearFromTime d) (MonthFromTime d) dt) (TimeWithinDay d)"

lemma Day_MakeDate: "0 \<le> tm \<Longrightarrow> tm < msPerDay \<Longrightarrow> Day (MakeDate dy tm) = dy"
  unfolding Day_def MakeDate_def msPerDay_def
  by (rule int_div_pos_eq[of _ _ _ tm]) simp_all

lemma TimeWithinDay_bounds: "0 \<le> TimeWithinDay t" "TimeWithinDay t < msPerDay"
  unfolding TimeWithinDay_def msPerDay_def by simp_all

lemma MakeDay_in_year:
  "m \<in> {0, 1, 2, 3, 4, 5, 6, 7, 8, 9, 10, 11} \<Longrightarrow>
   MakeDay y m dt = DayFromYear y + month_start m (if DaysInYear y = 366 then 1 else 0) + dt - 1"
  unfolding MakeDay_def Let_def by auto

lemma Day_setDate: "Day (setDate d (getDate d + k)) = Day d + k"
proof -
  have "MakeDay (YearFromTime d) (MonthFromTime d) (DateFromTime d + k) = Day d + k"
    unfolding MakeDay_in_year[OF MonthFromTime_range]
    unfolding DateFromTime_def DayWithinYear_def InLeapYear_def by simp
  then show ?thesis
    unfolding setDate_def getDate_def using Day_MakeDate[OF TimeWithinDay_bounds] by simp
qed

lemma TimeWithinDay_setDate: "TimeWithinDay (setDate d k) = TimeWithinDay d"
  unfolding setDate_def TimeWithinDay_def MakeDate_def by simp

section \<open>Strings\<close>

text \<open>
  A JavaScript string is kept as the list of the bytes of its UTF-8 encoding, so that
  two strings are equal exactly when \<^verbatim>\<open>===\<close> says so. The four accented letters of the
  literals of the source are written by their bytes.
\<close>

definition n_tilde :: string where "n_tilde = [CHR 0xC3, CHR 0xB1]"
definition a_acute :: string where "a_acute = [CHR 0xC3, CHR 0xA1]"
definition u_acute :: string where "u_acute = [CHR 0xC3, CHR 0xBA]"
definition U_acute :: string where "U_acute = [CHR 0xC3, CHR 0x9A]"

definition digit_char :: "nat \<Rightarrow> char" where
  "digit_char n = ''0123456789'' ! n"

fun digits_of :: "nat \<Rightarrow> string" where
  "digits_of n = (if n < 10 then [digit_char n] else digits_of (n div 10) @ [digit_char (n mod 10)])"

declare digits_of.simps [simp del]

text \<open>\<^verbatim>\<open>String(n)\<close> and \<^verbatim>\<open>`${n}`\<close> for an integer \<open>n\<close>.\<close>

definition String_of :: "int \<Rightarrow> string" where
  "String_of n = (if n < 0 then ''-'' @ digits_of (nat (- n)) else digits_of (nat n))"

text \<open>\<^verbatim>\<open>s.padStart(n, c)\<close> with a one-character filler.\<close>

definition padStart :: "string \<Rightarrow> nat \<Rightarrow> char \<Rightarrow> string" where
  "padStart s n c = replicate (n - length s) c @ s"

definition weekday_name :: "int \<Rightarrow> string" where
  "weekday_name w =
     (if w = 0 then ''Sun'' else if w = 1 then ''Mon'' else if w = 2 then ''Tue''
      else if w = 3 then ''Wed'' else if w = 4 then ''Thu'' else if w = 5 then ''Fri''
      else ''Sat'')"

definition month_name :: "int \<Rightarrow> string" where
  "month_name m =
     (if m = 0 then ''Jan'' else if m = 1 then ''Feb'' else if m = 2 then ''Mar''
      else if m = 3 then ''Apr'' else if m = 4 then ''May'' else if m = 5 then ''Jun''
      else if m = 6 then ''Jul'' else if m = 7 then ''Aug'' else if m = 8 then ''Sep''
      else if m = 9 then ''Oct'' else if m = 10 then ''Nov'' else ''Dec'')"

text \<open>
  \<^verbatim>\<open>Date.prototype.toDateString\<close>: weekday, month, day on two digits, year on at least
  four digits after its sign, as in \<^verbatim>\<open>Tue Mar 05 2024\<close>.
\<close>

definition toDateString :: "jsdate \<Rightarrow> string" where
  "toDateString d =
     weekday_name (WeekDay d) @ '' '' @ month_name (MonthFromTime d) @ '' '' @
     padStart (digits_of (nat (DateFromTime d))) 2 CHR ''0'' @ '' '' @
     (if 0 \<le> YearFromTime d then [] else ''-'') @
     padStart (digits_of (nat (abs (YearFromTime d)))) 4 CHR ''0''"

section \<open>Helpers of \<^verbatim>\<open>src/App.js\<close>\<close>

text \<open>\<^verbatim>\<open>formatDateForFirestore\<close> (lines 38 to 44).\<close>

definition formatDateForFirestore :: "jsdate \<Rightarrow> string" where
  "formatDateForFirestore date =
     (let d = date;
          year = getFullYear d;
          month = padStart (String_of (getMonth d + 1)) 2 CHR ''0'';
          day = padStart (String_of (getDate d)) 2 CHR ''0''
      in String_of year @ ''-'' @ month @ ''-'' @ day)"

text \<open>
  \<^verbatim>\<open>getLastTuesdayOfMonth\<close> (lines 47 to 56). The \<^verbatim>\<open>while\<close> loop is the recursion
  \<open>back_to_tuesday\<close>: one day back until \<^verbatim>\<open>getDay()\<close> is 2.
\<close>

lemma int_interval_7: "0 \<le> (x::int) \<Longrightarrow> x < 7 \<Longrightarrow> x \<in> {0, 1, 2, 3, 4, 5, 6}"
  by auto

lemma mod7_cases: "(D::int) mod 7 \<in> {0, 1, 2, 3, 4, 5, 6}"
  by (rule int_interval_7) simp_all

lemma mod7_add: "(D + k) mod 7 = (D mod 7 + k) mod (7::int)"
  by (simp add: mod_add_left_eq)

lemma back_to_tuesday_measure:
  assumes "WeekDay d \<noteq> 2"
  shows "0 < (WeekDay d + 5) mod 7 \<and>
    (WeekDay (setDate d (getDate d - 1)) + 5) mod 7 < (WeekDay d + 5) mod 7"
proof -
  have "Day (setDate d (getDate d - 1)) = Day d - 1"
    using Day_setDate[of d "- 1"] by simp
  then have e: "WeekDay (setDate d (getDate d - 1)) = (Day d + 3) mod 7"
    by (simp add: WeekDay_def add.commute)
  show ?thesis
    using assms unfolding e unfolding WeekDay_def mod7_add[of "Day d"]
    using mod7_cases[of "Day d"] by (elim insertE emptyE) simp_all
qed

function back_to_tuesday :: "jsdate \<Rightarrow> jsdate" where
  "back_to_tuesday lastTuesday =
     (if getDay lastTuesday \<noteq> 2
      then back_to_tuesday (setDate lastTuesday (getDate lastTuesday - 1))
      else lastTuesday)"
  by pat_completeness auto
termination
  by (relation "measure (\<lambda>d. nat ((WeekDay d + 5) mod 7))")
    (simp_all add: getDay_def back_to_tuesday_measure)

declare back_to_tuesday.simps [simp del]

definition getLastTuesdayOfMonth :: "int \<Rightarrow> int \<Rightarrow> jsdate" where
  "getLastTuesdayOfMonth year month =
     (let lastDayOfMonth = new_Date year (month + 1) 0
      in back_to_tuesday lastDayOfMonth)"

section \<open>Medication definitions and the daily schedule\<close>

text \<open>A medication definition, as in \<^verbatim>\<open>defaultMedications\<close> (lines 17 to 35).\<close>

record medication =
  med_id :: string
  name :: string
  dosage :: string
  time :: string
  frequency :: string

definition Diario :: string where
  "Diario = ''Diario''"

definition Martes_Jueves_Sabados :: string where
  "Martes_Jueves_Sabados = ''Martes, Jueves, S'' @ a_acute @ ''bados''"

definition Ultimo_Martes_del_Mes :: string where
  "Ultimo_Martes_del_Mes = U_acute @ ''ltimo Martes del Mes''"

definition Segun_necesidad :: string where
  "Segun_necesidad = ''Seg'' @ u_acute @ ''n necesidad''"

definition Manana_Post_desayuno :: string where
  "Manana_Post_desayuno = ''Ma'' @ n_tilde @ ''ana Post desayuno''"

definition mk_med :: "string \<Rightarrow> string \<Rightarrow> string \<Rightarrow> string \<Rightarrow> string \<Rightarrow> medication" where
  "mk_med i n d t f = \<lparr>med_id = i, name = n, dosage = d, time = t, frequency = f\<rparr>"

definition defaultMedications :: "medication list" where
  "defaultMedications =
    [mk_med ''t4'' ''T4'' '''' ''Ayunas'' Diario,
     mk_med ''levecom-m'' ''Levecom'' ''500mg'' Manana_Post_desayuno Diario,
     mk_med ''deslefex'' ''Deslefex'' '''' Manana_Post_desayuno Diario,
     mk_med ''lukast'' ''Lukast'' '''' Manana_Post_desayuno Diario,
     mk_med ''hidrotisona-m'' ''Hidrotisona'' ''10mg'' Manana_Post_desayuno Diario,
     mk_med ''velsarten'' ''Velsarten'' ''160mg'' Manana_Post_desayuno Diario,
     mk_med ''amlodipino'' ''Amlodipino'' ''1/2 5mg'' Manana_Post_desayuno Diario,
     mk_med ''dexlansoprazol'' ''Dexlansoprazol'' '''' Manana_Post_desayuno Diario,
     mk_med ''hidrotisona-ac'' ''Hidrotisona'' '''' ''Antes de Comer 13hs'' Diario,
     mk_med ''b12'' ''B12'' ''3 veces x semana sublingual'' ''Antes de Comer 13hs''
       Martes_Jueves_Sabados,
     mk_med ''hidrotisona-t'' ''Hidrotisona'' ''1/2 5mg'' ''Tarde 18hs'' Diario,
     mk_med ''levecom-n'' ''Levecom'' '''' ''Noche'' Diario,
     mk_med ''novo-insomnum'' ''Novo Insomnum'' '''' ''Noche'' Diario,
     mk_med ''roovex'' ''Reorex'' ''10mg'' ''Noche'' Diario,
     mk_med ''vitamina-d'' ''Vitamina D (Firesole/Apolar)'' ''1 vez al mes'' ''Mensual''
       Ultimo_Martes_del_Mes,
     mk_med ''miopropan'' ''Mipropan'' '''' Segun_necesidad ''En caso de diarrea'',
     mk_med ''naproxeno'' ''Naproxeno'' '''' Segun_necesidad ''En caso de dolor de cabeza'']"

text \<open>
  \<^verbatim>\<open>getFilteredMedications\<close> (lines 262 to 283). \<open>frequency_switch\<close> is the callback
  given to \<^verbatim>\<open>filter\<close>: the \<^verbatim>\<open>switch\<close> on \<^verbatim>\<open>med.frequency\<close>, its cases in the
  order of the source.
\<close>

definition frequency_switch :: "jsdate \<Rightarrow> medication \<Rightarrow> bool" where
  "frequency_switch currentDate med =
     (let currentDayOfWeek = getDay currentDate;
          currentYear = getFullYear currentDate;
          currentMonth = getMonth currentDate
      in if frequency med = Diario then True
         else if frequency med = Martes_Jueves_Sabados
           then currentDayOfWeek = 2 \<or> currentDayOfWeek = 4 \<or> currentDayOfWeek = 6
         else if frequency med = Ultimo_Martes_del_Mes
           then (let lastTuesday = getLastTuesdayOfMonth currentYear currentMonth
                 in toDateString currentDate = toDateString lastTuesday)
         else if frequency med = Segun_necesidad then False
         else True)"

definition getFilteredMedications :: "jsdate \<Rightarrow> medication list \<Rightarrow> medication list" where
  "getFilteredMedications currentDate medicationDefinitions =
     filter (frequency_switch currentDate) medicationDefinitions"

subsection \<open>The literals of the switch are different strings\<close>

lemma frequency_literals_distinct:
  "Martes_Jueves_Sabados \<noteq> Diario" "Ultimo_Martes_del_Mes \<noteq> Diario"
  "Ultimo_Martes_del_Mes \<noteq> Martes_Jueves_Sabados" "Segun_necesidad \<noteq> Diario"
  "Segun_necesidad \<noteq> Martes_Jueves_Sabados" "Segun_necesidad \<noteq> Ultimo_Martes_del_Mes"
  by (simp_all add: Diario_def Martes_Jueves_Sabados_def Ultimo_Martes_del_Mes_def
      Segun_necesidad_def a_acute_def U_acute_def u_acute_def)

subsection \<open>Days of the week\<close>

lemma Day_add_days: "Day (t + k * msPerDay) = Day t + k"
proof -
  have "(t + k * 86400000) div 86400000 = k + t div (86400000::int)"
    by (rule div_mult_self1) simp
  then show ?thesis
    unfolding Day_def msPerDay_def by (simp only: add.commute)
qed

lemma getDay_of_Day:
  assumes "Day e = Day d + int k" "int k + 4 = n"
  shows "getDay e = (Day d mod 7 + n) mod 7"
  unfolding getDay_def WeekDay_def assms(1) add.assoc assms(2) by (rule mod7_add)

lemma upt_7: "[0..<7] = [0, 1, 2, 3, 4, 5, 6]"
  by (simp add: upt_rec)

text \<open>Seven dates on seven calendar days in a row: three of them are a Tuesday, a Thursday or a Saturday.\<close>

lemma three_of_seven:
  assumes "\<forall>k<7. Day (e k) = Day d + int k"
  shows "length (filter (\<lambda>k. getDay (e k) \<in> {2, 4, 6}) [0..<7]) = 3"
proof -
  have D: "Day (e k) = Day d + int k" if "k < 7" for k
    using assms that by blast
  have g: "getDay (e 0) = (Day d mod 7 + 4) mod 7" "getDay (e 1) = (Day d mod 7 + 5) mod 7"
    "getDay (e 2) = (Day d mod 7 + 6) mod 7" "getDay (e 3) = (Day d mod 7 + 7) mod 7"
    "getDay (e 4) = (Day d mod 7 + 8) mod 7" "getDay (e 5) = (Day d mod 7 + 9) mod 7"
    "getDay (e 6) = (Day d mod 7 + 10) mod 7"
    by (rule getDay_of_Day[OF D]; simp)+
  show ?thesis
    unfolding upt_7 filter.simps g
    using mod7_cases[of "Day d"] by (elim insertE emptyE) simp_all
qed

definition b12 :: medication where
  "b12 = mk_med ''b12'' ''B12'' ''3 veces x semana sublingual'' ''Antes de Comer 13hs''
     Martes_Jueves_Sabados"

definition miopropan :: medication where
  "miopropan = mk_med ''miopropan'' ''Mipropan'' '''' Segun_necesidad ''En caso de diarrea''"

text \<open>
  C6: a definition whose frequency is \<^verbatim>\<open>Martes, Jueves, Sabados (a-acute)\<close> is kept by
  \<^verbatim>\<open>getFilteredMedications\<close> exactly on the dates whose \<^verbatim>\<open>getDay()\<close> is 2 (Tuesday),
  4 (Thursday) or 6 (Saturday); and of seven dates on seven consecutive calendar days,
  exactly three keep it.
\<close>

theorem tue_thu_sat_schedule:
  assumes "frequency med = Martes_Jueves_Sabados"
  shows "(frequency_switch d med \<longleftrightarrow> getDay d \<in> {2, 4, 6}) \<and>
    (med \<in> set defs \<longrightarrow>
      (med \<in> set (getFilteredMedications d defs) \<longleftrightarrow> getDay d \<in> {2, 4, 6})) \<and>
    (\<forall>e. (\<forall>k<7. Day (e k) = Day d + int k) \<longrightarrow>
      length (filter (\<lambda>k. frequency_switch (e k) med) [0..<7]) = 3)"
proof -
  have a: "frequency_switch d med \<longleftrightarrow> getDay d \<in> {2, 4, 6}" for d
    using assms frequency_literals_distinct(1)
    by (simp add: frequency_switch_def Let_def)
  have "\<forall>e. (\<forall>k<7. Day (e k) = Day d + int k) \<longrightarrow>
      length (filter (\<lambda>k. frequency_switch (e k) med) [0..<7]) = 3"
    unfolding a using three_of_seven by blast
  with a show ?thesis
    by (simp add: getFilteredMedications_def)
qed

theorem tue_thu_sat_schedule_witness:
  "frequency b12 = Martes_Jueves_Sabados \<and>
   getDay (new_Date 2024 2 5) = 2 \<and>
   frequency_switch (new_Date 2024 2 5) b12 \<and>
   b12 \<in> set (getFilteredMedications (new_Date 2024 2 5) defaultMedications) \<and>
   getDay (new_Date 2024 2 6) = 3 \<and>
   \<not> frequency_switch (new_Date 2024 2 6) b12 \<and>
   length (filter (\<lambda>k. frequency_switch (new_Date 2024 2 5 + int k * msPerDay) b12) [0..<7]) = 3"
proof -
  have f: "frequency b12 = Martes_Jueves_Sabados"
    by (simp add: b12_def mk_med_def)
  have m: "b12 \<in> set defaultMedications"
    by (simp add: b12_def defaultMedications_def)
  have g: "getDay (new_Date 2024 2 5) = 2" "getDay (new_Date 2024 2 6) = 3"
    by code_simp+
  have w: "\<forall>k<7. Day (new_Date 2024 2 5 + int k * msPerDay) = Day (new_Date 2024 2 5) + int k"
    by (simp add: Day_add_days)
  note T = tue_thu_sat_schedule[OF f, of "new_Date 2024 2 5" defaultMedications]
  have c: "length (filter (\<lambda>k. frequency_switch (new_Date 2024 2 5 + int k * msPerDay) b12)
      [0..<7]) = 3"
    using conjunct2[OF conjunct2[OF T], rule_format,
        of "\<lambda>k. new_Date 2024 2 5 + int k * msPerDay"] w by blast
  show ?thesis
    using conjunct1[OF T] conjunct1[OF conjunct2[OF T]]
      tue_thu_sat_schedule[OF f, of "new_Date 2024 2 6" defaultMedications] f m g c
    by simp
qed

text \<open>
  C5: a definition whose frequency is none of the four literals of the switch falls to
  its \<^verbatim>\<open>default\<close> branch and is kept on every date; one whose frequency is
  \<^verbatim>\<open>Segun necesidad (u-acute)\<close> is dropped on every date.
\<close>

theorem unrecognized_daily_as_needed_never:
  "(frequency med \<notin> {Diario, Martes_Jueves_Sabados, Ultimo_Martes_del_Mes, Segun_necesidad}
      \<longrightarrow> frequency_switch d med \<and>
        (med \<in> set defs \<longrightarrow> med \<in> set (getFilteredMedications d defs))) \<and>
   (frequency med = Segun_necesidad
      \<longrightarrow> \<not> frequency_switch d med \<and> med \<notin> set (getFilteredMedications d defs))"
  using frequency_literals_distinct
  by (simp add: frequency_switch_def getFilteredMedications_def Let_def)

theorem unrecognized_daily_as_needed_never_witness:
  "frequency miopropan = ''En caso de diarrea'' \<and>
   frequency_switch (new_Date 2024 2 6) miopropan \<and>
   miopropan \<in> set (getFilteredMedications (new_Date 2024 2 6) defaultMedications) \<and>
   \<not> frequency_switch (new_Date 2024 2 6) (miopropan\<lparr>frequency := Segun_necesidad\<rparr>) \<and>
   miopropan\<lparr>frequency := Segun_necesidad\<rparr>
     \<notin> set (getFilteredMedications (new_Date 2024 2 6)
         (defaultMedications @ [miopropan\<lparr>frequency := Segun_necesidad\<rparr>]))"
proof -
  have f: "frequency miopropan = ''En caso de diarrea''"
    by (simp add: miopropan_def mk_med_def)
  have n: "frequency miopropan
      \<notin> {Diario, Martes_Jueves_Sabados, Ultimo_Martes_del_Mes, Segun_necesidad}"
    unfolding f
    by (simp add: Diario_def Martes_Jueves_Sabados_def Ultimo_Martes_del_Mes_def
        Segun_necesidad_def U_acute_def)
  have m: "miopropan \<in> set defaultMedications"
    by (simp add: miopropan_def defaultMedications_def)
  show ?thesis
    using unrecognized_daily_as_needed_never[of miopropan "new_Date 2024 2 6" defaultMedications]
      unrecognized_daily_as_needed_never[of "miopropan\<lparr>frequency := Segun_necesidad\<rparr>"
        "new_Date 2024 2 6" "defaultMedications @ [miopropan\<lparr>frequency := Segun_necesidad\<rparr>]"]
      f n m
    by simp
qed

section \<open>Months as intervals of days\<close>

definition month_end :: "int \<Rightarrow> int \<Rightarrow> int" where
  "month_end m L = (if m = 11 then 365 + L else month_start (m + 1) L)"

definition leap :: "int \<Rightarrow> int" where
  "leap y = (if DaysInYear y = 366 then 1 else 0)"

lemma leap_cases: "leap y = 0 \<or> leap y = 1"
  by (simp add: leap_def)

lemma InLeapYear_leap: "InLeapYear t = leap (YearFromTime t)"
  by (simp add: InLeapYear_def leap_def)

lemma DayFromYear_next: "DayFromYear (y + 1) = DayFromYear y + 365 + leap y"
  using DayFromYear_Suc[of y] DaysInYear_cases[of y] by (auto simp: leap_def)

lemma month_chain_iff:
  assumes "L = 0 \<or> L = 1" "0 \<le> d" "d < 365 + L"
    and "m \<in> {0, 1, 2, 3, 4, 5, 6, 7, 8, 9, 10, 11}"
  shows "(if d < 31 then 0 else if d < 59 + L then 1 else if d < 90 + L then 2
      else if d < 120 + L then 3 else if d < 151 + L then 4 else if d < 181 + L then 5
      else if d < 212 + L then 6 else if d < 243 + L then 7 else if d < 273 + L then 8
      else if d < 304 + L then 9 else if d < 334 + L then 10 else (11::int)) = m
    \<longleftrightarrow> month_start m L \<le> d \<and> d < month_end m L"
  using assms(4,1,2,3) unfolding month_start_def month_end_def
  by (elim insertE emptyE disjE) simp_all

lemma month_bounds:
  assumes "L = 0 \<or> L = 1" "m \<in> {0, 1, 2, 3, 4, 5, 6, 7, 8, 9, 10, 11}"
  shows "0 \<le> month_start m L" "month_start m L + 28 \<le> month_end m L"
    "month_end m L \<le> month_start m L + 31" "month_end m L \<le> 365 + L"
  using assms(2,1) unfolding month_start_def month_end_def
  by (elim insertE emptyE disjE; simp)+

lemma MonthFromTime_chain:
  "MonthFromTime t =
    (let d = Day t - DayFromYear (YearFromTime t); L = leap (YearFromTime t) in
      if d < 31 then 0 else if d < 59 + L then 1 else if d < 90 + L then 2
      else if d < 120 + L then 3 else if d < 151 + L then 4 else if d < 181 + L then 5
      else if d < 212 + L then 6 else if d < 243 + L then 7 else if d < 273 + L then 8
      else if d < 304 + L then 9 else if d < 334 + L then 10 else 11)"
  unfolding MonthFromTime_def InLeapYear_leap DayWithinYear_def by (rule refl)

lemma in_month_iff:
  assumes m: "m \<in> {0, 1, 2, 3, 4, 5, 6, 7, 8, 9, 10, 11}"
  shows "YearFromTime t = y \<and> MonthFromTime t = m \<longleftrightarrow>
    DayFromYear y + month_start m (leap y) \<le> Day t \<and>
    Day t < DayFromYear y + month_end m (leap y)"
proof
  assume a: "YearFromTime t = y \<and> MonthFromTime t = m"
  then have y: "YearFromTime t = y" and mm: "MonthFromTime t = m" by simp_all
  define d where "d = Day t - DayFromYear y"
  have b: "0 \<le> d" "d < 365 + leap y"
    using DayWithinYear_bounds[of t] DaysInYear_InLeapYear[of t]
    unfolding DayWithinYear_def InLeapYear_leap y d_def by simp_all
  have "month_start m (leap y) \<le> d \<and> d < month_end m (leap y)"
    using mm unfolding MonthFromTime_chain y Let_def d_def[symmetric]
    unfolding month_chain_iff[OF leap_cases b m] .
  then show "DayFromYear y + month_start m (leap y) \<le> Day t \<and>
    Day t < DayFromYear y + month_end m (leap y)"
    unfolding d_def by linarith
next
  assume a: "DayFromYear y + month_start m (leap y) \<le> Day t \<and>
    Day t < DayFromYear y + month_end m (leap y)"
  define d where "d = Day t - DayFromYear y"
  from a have r: "month_start m (leap y) \<le> d \<and> d < month_end m (leap y)"
    unfolding d_def by linarith
  with month_bounds[OF leap_cases m, of y] have b: "0 \<le> d" "d < 365 + leap y"
    by linarith+
  then have "DayFromYear y \<le> Day t \<and> Day t < DayFromYear (y + 1)"
    unfolding d_def DayFromYear_next by linarith
  then have y: "YearFromTime t = y"
    by (simp only: YearFromTime_iff)
  have "MonthFromTime t = m"
    unfolding MonthFromTime_chain y Let_def d_def[symmetric]
    unfolding month_chain_iff[OF leap_cases b m] by (rule r)
  with y show "YearFromTime t = y \<and> MonthFromTime t = m" by simp
qed

section \<open>The last Tuesday\<close>






section \<open>Reading decimal strings back\<close>

definition digit_val :: "char \<Rightarrow> nat" where
  "digit_val c = length (takeWhile (\<lambda>x. x \<noteq> c) ''0123456789'') mod 10"

definition nat_of_digits :: "string \<Rightarrow> nat" where
  "nat_of_digits s = foldl (\<lambda>a c. 10 * a + digit_val c) 0 s"

lemma nat_less_10: "(n::nat) < 10 \<Longrightarrow> n \<in> {0, 1, 2, 3, 4, 5, 6, 7, 8, 9}"
  by auto

lemma digit_val_digit_char: "n < 10 \<Longrightarrow> digit_val (digit_char n) = n"
  by (drule nat_less_10) (auto simp: digit_val_def digit_char_def)

lemma digit_char_not_minus: "n < 10 \<Longrightarrow> digit_char n \<noteq> CHR ''-''"
  by (drule nat_less_10) (auto simp: digit_char_def)

lemma nat_of_digits_snoc: "nat_of_digits (s @ [c]) = 10 * nat_of_digits s + digit_val c"
  by (simp add: nat_of_digits_def)

lemma nat_of_digits_digits_of: "nat_of_digits (digits_of n) = n"
proof (induction n rule: digits_of.induct)
  case (1 n)
  show ?case
  proof (cases "n < 10")
    case True
    then show ?thesis
      by (subst digits_of.simps) (simp add: nat_of_digits_def digit_val_digit_char)
  next
    case False
    then have "digits_of n = digits_of (n div 10) @ [digit_char (n mod 10)]"
      by (subst digits_of.simps) simp
    then show ?thesis
      using 1[OF False] by (simp add: nat_of_digits_snoc digit_val_digit_char)
  qed
qed

lemma nat_of_digits_zeros: "nat_of_digits (replicate k CHR ''0'' @ s) = nat_of_digits s"
proof -
  have "foldl (\<lambda>a c. 10 * a + digit_val c) 0 (replicate k CHR ''0'') = 0"
    by (induction k) (simp_all add: digit_val_def)
  then show ?thesis by (simp add: nat_of_digits_def)
qed

lemma nat_of_digits_padStart: "nat_of_digits (padStart (digits_of n) k CHR ''0'') = n"
  by (simp add: padStart_def nat_of_digits_zeros nat_of_digits_digits_of)

lemma digits_of_nonempty: "digits_of n \<noteq> []"
  by (subst digits_of.simps) simp

lemma digits_of_no_minus: "CHR ''-'' \<notin> set (digits_of n)"
proof (induction n rule: digits_of.induct)
  case (1 n)
  show ?case
  proof (cases "n < 10")
    case True
    then show ?thesis
      using digit_char_not_minus[of n] by (subst digits_of.simps) auto
  next
    case False
    then have "digits_of n = digits_of (n div 10) @ [digit_char (n mod 10)]"
      by (subst digits_of.simps) simp
    then show ?thesis
      using 1[OF False] digit_char_not_minus[of "n mod 10"] by auto
  qed
qed

lemma length_digits_of_1: "n < 10 \<Longrightarrow> length (digits_of n) = 1"
  by (subst digits_of.simps) simp

lemma length_digits_of_2: "n < 100 \<Longrightarrow> length (digits_of n) \<le> 2"
proof (cases "n < 10")
  case True
  then show ?thesis by (simp add: length_digits_of_1)
next
  case False
  assume "n < 100"
  then have "n div 10 < 10" by simp
  then have "length (digits_of (n div 10)) = 1" by (rule length_digits_of_1)
  with False show ?thesis by (subst digits_of.simps) simp
qed

lemma length_padStart: "length (padStart s n c) = max n (length s)"
  by (simp add: padStart_def)



section \<open>A date string names one calendar day\<close>

lemma DateFromTime_range: "1 \<le> DateFromTime t" "DateFromTime t \<le> 31"
proof -
  define y m where "y = YearFromTime t" and "m = MonthFromTime t"
  have m: "m \<in> {0, 1, 2, 3, 4, 5, 6, 7, 8, 9, 10, 11}"
    unfolding m_def by (rule MonthFromTime_range)
  have "YearFromTime t = y \<and> MonthFromTime t = m" by (simp add: y_def m_def)
  then have a: "DayFromYear y + month_start m (leap y) \<le> Day t \<and>
      Day t < DayFromYear y + month_end m (leap y)"
    unfolding in_month_iff[OF m] .
  have b: "month_end m (leap y) \<le> month_start m (leap y) + 31"
    by (rule month_bounds(3)[OF leap_cases m])
  have e: "DateFromTime t = Day t - DayFromYear y - month_start m (leap y) + 1"
    unfolding DateFromTime_def DayWithinYear_def InLeapYear_leap y_def m_def by simp
  show "1 \<le> DateFromTime t" "DateFromTime t \<le> 31"
    using a b unfolding e by linarith+
qed

lemma Day_from_fields:
  "Day t = DayFromYear (YearFromTime t)
     + month_start (MonthFromTime t) (leap (YearFromTime t)) + DateFromTime t - 1"
  unfolding DateFromTime_def DayWithinYear_def InLeapYear_leap by simp

lemma fields_eq_imp_Day_eq:
  "YearFromTime a = YearFromTime b \<Longrightarrow> MonthFromTime a = MonthFromTime b \<Longrightarrow>
   DateFromTime a = DateFromTime b \<Longrightarrow> Day a = Day b"
  using Day_from_fields[of a] Day_from_fields[of b] by simp

lemma Day_eq_imp_fields_eq:
  assumes "Day a = Day b"
  shows "YearFromTime a = YearFromTime b" "MonthFromTime a = MonthFromTime b"
    "DateFromTime a = DateFromTime b" "WeekDay a = WeekDay b"
proof -
  show y: "YearFromTime a = YearFromTime b" by (simp add: YearFromTime_def assms)
  then show m: "MonthFromTime a = MonthFromTime b" by (simp add: MonthFromTime_chain assms)
  with y show "DateFromTime a = DateFromTime b"
    by (simp add: DateFromTime_def DayWithinYear_def InLeapYear_leap assms)
  show "WeekDay a = WeekDay b" by (simp add: WeekDay_def assms)
qed

definition year_of_string :: "string \<Rightarrow> int" where
  "year_of_string s =
     (if s \<noteq> [] \<and> hd s = CHR ''-'' then - int (nat_of_digits (tl s))
      else int (nat_of_digits s))"






definition day_string :: "int \<Rightarrow> string" where
  "day_string dt = padStart (digits_of (nat dt)) 2 CHR ''0''"

lemma length_day_string: "1 \<le> dt \<Longrightarrow> dt \<le> 31 \<Longrightarrow> length (day_string dt) = 2"
  using length_digits_of_2[of "nat dt"] by (simp add: day_string_def length_padStart)

lemma day_string_inj:
  assumes "0 \<le> a" "0 \<le> b" "day_string a = day_string b"
  shows "a = b"
proof -
  have "nat a = nat b"
    using arg_cong[OF assms(3), of nat_of_digits]
    by (simp add: day_string_def nat_of_digits_padStart)
  with assms show ?thesis by simp
qed


lemma append_eq_same_length:
  "length xs = length ys \<Longrightarrow> xs @ us = ys @ vs \<Longrightarrow> xs = ys \<and> us = vs"
  by simp



section \<open>The monthly schedule\<close>



























section \<open>Daily records are keyed by the formatted date\<close>

text \<open>
  A Firestore document reference: the path of its collection and the id of the document.
  \<^verbatim>\<open>appId\<close> is a global of the hosting page (line 9).
\<close>

record doc_ref =
  collection_path :: string
  doc_id :: string

definition dailyRecords_collection :: "string \<Rightarrow> string" where
  "dailyRecords_collection appId = ''artifacts/'' @ appId @ ''/public/data/dailyRecords''"

text \<open>
  \<^verbatim>\<open>doc(db, `artifacts/${appId}/public/data/dailyRecords`, formatDateForFirestore(currentDate))\<close>,
  as the listener (lines 135 and 136) and \<^verbatim>\<open>updateDailyRecord\<close> (lines 178 and 179)
  build it.
\<close>

definition dailyRecordDocRef :: "string \<Rightarrow> jsdate \<Rightarrow> doc_ref" where
  "dailyRecordDocRef appId currentDate =
     (let formattedDate = formatDateForFirestore currentDate
      in \<lparr>collection_path = dailyRecords_collection appId, doc_id = formattedDate\<rparr>)"

lemma year_of_String_of: "year_of_string (String_of n) = n"
proof (cases "n < 0")
  case True
  then show ?thesis by (simp add: year_of_string_def String_of_def nat_of_digits_digits_of)
next
  case False
  let ?p = "digits_of (nat n)"
  have "hd ?p \<in> set ?p" using digits_of_nonempty by (intro hd_in_set)
  with digits_of_no_minus[of "nat n"] have "hd ?p \<noteq> CHR ''-''" by metis
  with False show ?thesis
    by (simp add: year_of_string_def String_of_def nat_of_digits_digits_of)
qed

lemma padStart_String_of: "0 \<le> x \<Longrightarrow> padStart (String_of x) 2 CHR ''0'' = day_string x"
  by (simp add: String_of_def day_string_def)

lemma formatDateForFirestore_parts:
  "formatDateForFirestore d =
     String_of (YearFromTime d) @ ''-'' @ day_string (MonthFromTime d + 1) @ ''-'' @
     day_string (DateFromTime d)"
proof -
  have "0 \<le> MonthFromTime d + 1" using MonthFromTime_range[of d] by auto
  moreover have "0 \<le> DateFromTime d" using DateFromTime_range(1)[of d] by simp
  ultimately show ?thesis
    by (simp add: formatDateForFirestore_def Let_def getFullYear_def getMonth_def getDate_def
        padStart_String_of)
qed

lemma length_month_string: "length (day_string (MonthFromTime d + 1)) = 2"
  using MonthFromTime_range[of d] by (intro length_day_string) auto

lemma length_date_string: "length (day_string (DateFromTime d)) = 2"
  using DateFromTime_range[of d] by (intro length_day_string)

lemma append_eq_same_length_right:
  "length us = length vs \<Longrightarrow> xs @ us = ys @ vs \<Longrightarrow> xs = ys \<and> us = vs"
  by simp

lemma formatDateForFirestore_eq_iff:
  "formatDateForFirestore a = formatDateForFirestore b \<longleftrightarrow> Day a = Day b"
proof
  assume "Day a = Day b"
  from Day_eq_imp_fields_eq[OF this] show "formatDateForFirestore a = formatDateForFirestore b"
    unfolding formatDateForFirestore_parts by (simp only:)
next
  assume e: "formatDateForFirestore a = formatDateForFirestore b"
  have l: "length (''-'' @ day_string (MonthFromTime a + 1) @ ''-'' @ day_string (DateFromTime a))
      = length (''-'' @ day_string (MonthFromTime b + 1) @ ''-'' @ day_string (DateFromTime b))"
    by (simp add: length_month_string length_date_string)
  have s: "length ''-'' = length ''-''" by simp
  have lm: "length (day_string (MonthFromTime a + 1)) = length (day_string (MonthFromTime b + 1))"
    by (simp add: length_month_string)
  note 1 = append_eq_same_length_right[OF l e[unfolded formatDateForFirestore_parts]]
  note 2 = append_eq_same_length[OF s conjunct2[OF 1]]
  note 3 = append_eq_same_length[OF lm conjunct2[OF 2]]
  note 4 = append_eq_same_length[OF s conjunct2[OF 3]]
  have y: "YearFromTime a = YearFromTime b"
    using arg_cong[OF conjunct1[OF 1], of year_of_string] by (simp only: year_of_String_of)
  have "MonthFromTime a + 1 = MonthFromTime b + 1"
    using MonthFromTime_range[of a] MonthFromTime_range[of b]
    by (intro day_string_inj[OF _ _ conjunct1[OF 3]]) auto
  then have m: "MonthFromTime a = MonthFromTime b" by simp
  have d: "DateFromTime a = DateFromTime b"
    using DateFromTime_range(1)[of a] DateFromTime_range(1)[of b]
    by (intro day_string_inj[OF _ _ conjunct2[OF 4]]) simp_all
  show "Day a = Day b" by (rule fields_eq_imp_Day_eq[OF y m d])
qed

text \<open>
  C9: two Dates that format to the same string address the same daily-record document;
  the reference depends on the Date through that string only, the string is the year,
  the month on two digits and the day on two digits, and it is the same for two Dates
  exactly when they lie on the same local calendar day.
\<close>

theorem daily_record_keyed_by_formatted_date:
  "(formatDateForFirestore d1 = formatDateForFirestore d2 \<longrightarrow>
      dailyRecordDocRef appId d1 = dailyRecordDocRef appId d2) \<and>
   dailyRecordDocRef appId d1 =
     \<lparr>collection_path = dailyRecords_collection appId, doc_id = formatDateForFirestore d1\<rparr> \<and>
   formatDateForFirestore d1 =
     String_of (getFullYear d1) @ ''-'' @ padStart (String_of (getMonth d1 + 1)) 2 CHR ''0''
       @ ''-'' @ padStart (String_of (getDate d1)) 2 CHR ''0'' \<and>
   length (padStart (String_of (getMonth d1 + 1)) 2 CHR ''0'') = 2 \<and>
   length (padStart (String_of (getDate d1)) 2 CHR ''0'') = 2 \<and>
   (formatDateForFirestore d1 = formatDateForFirestore d2 \<longleftrightarrow> Day d1 = Day d2)"
proof -
  have m: "0 \<le> MonthFromTime d1 + 1" using MonthFromTime_range[of d1] by auto
  have d: "0 \<le> DateFromTime d1" using DateFromTime_range(1)[of d1] by simp
  have "length (padStart (String_of (getMonth d1 + 1)) 2 CHR ''0'') = 2"
    unfolding getMonth_def padStart_String_of[OF m] by (rule length_month_string)
  moreover have "length (padStart (String_of (getDate d1)) 2 CHR ''0'') = 2"
    unfolding getDate_def padStart_String_of[OF d] by (rule length_date_string)
  moreover have "formatDateForFirestore d1 =
     String_of (getFullYear d1) @ ''-'' @ padStart (String_of (getMonth d1 + 1)) 2 CHR ''0''
       @ ''-'' @ padStart (String_of (getDate d1)) 2 CHR ''0''"
    by (simp add: formatDateForFirestore_def Let_def)
  ultimately show ?thesis
    using formatDateForFirestore_eq_iff[of d1 d2]
    by (simp add: dailyRecordDocRef_def Let_def)
qed

theorem daily_record_keyed_by_formatted_date_witness:
  "formatDateForFirestore (new_Date 2024 2 5) = ''2024-03-05'' \<and>
   formatDateForFirestore (new_Date 2024 2 5 + 45296789) = ''2024-03-05'' \<and>
   new_Date 2024 2 5 \<noteq> new_Date 2024 2 5 + 45296789 \<and>
   dailyRecordDocRef ''default-app-id'' (new_Date 2024 2 5) =
     dailyRecordDocRef ''default-app-id'' (new_Date 2024 2 5 + 45296789) \<and>
   Day (new_Date 2024 2 5) = Day (new_Date 2024 2 5 + 45296789)"
proof -
  have f: "formatDateForFirestore (new_Date 2024 2 5) = ''2024-03-05''"
    "formatDateForFirestore (new_Date 2024 2 5 + 45296789) = ''2024-03-05''"
    by code_simp+
  show ?thesis
    using daily_record_keyed_by_formatted_date[of "new_Date 2024 2 5"
        "new_Date 2024 2 5 + 45296789" "''default-app-id''"] f
    by simp
qed

section \<open>Grouping by time of day and the order of the groups\<close>

datatype js_error = TypeError | SyntaxError | FirestoreError

text \<open>
  A plain object \<^verbatim>\<open>{}\<close> with string keys: its own properties in the order of their
  creation. Reading \<^verbatim>\<open>obj[k]\<close> for a key that is not an own property falls through to
  \<^verbatim>\<open>Object.prototype\<close>, whose properties are the ones below (all of them functions, but
  \<^verbatim>\<open>__proto__\<close>, which reads as the prototype object itself).
\<close>

type_synonym 'v js_object = "(string \<times> 'v) list"

definition Object_prototype_keys :: "string list" where
  "Object_prototype_keys =
     [''constructor'', ''__defineGetter__'', ''__defineSetter__'', ''hasOwnProperty'',
      ''__lookupGetter__'', ''__lookupSetter__'', ''isPrototypeOf'', ''propertyIsEnumerable'',
      ''toString'', ''valueOf'', ''__proto__'', ''toLocaleString'']"

text \<open>
  The reducer of \<^verbatim>\<open>groupedMedications\<close> (lines 288 to 294). An own property is an array
  (truthy, also when empty): the medication is pushed. An inherited property is truthy
  too and has no \<^verbatim>\<open>push\<close>: the call throws a TypeError. Any other key is created with
  a fresh array.
\<close>

definition reduce_step ::
  "medication list js_object \<Rightarrow> medication \<Rightarrow> js_error + medication list js_object" where
  "reduce_step acc med =
     (case map_of acc (time med) of
        Some meds \<Rightarrow>
          Inr (map (\<lambda>(k, v). if k = time med then (k, v @ [med]) else (k, v)) acc)
      | None \<Rightarrow>
          if time med \<in> set Object_prototype_keys then Inl TypeError
          else Inr (acc @ [(time med, [med])]))"

fun reduce_group ::
  "medication list js_object \<Rightarrow> medication list \<Rightarrow> js_error + medication list js_object" where
  "reduce_group acc [] = Inr acc"
| "reduce_group acc (med # meds) =
     (case reduce_step acc med of
        Inl e \<Rightarrow> Inl e
      | Inr acc' \<Rightarrow> reduce_group acc' meds)"

definition groupedMedications ::
  "medication list \<Rightarrow> js_error + medication list js_object" where
  "groupedMedications medicationsToDisplay = reduce_group [] medicationsToDisplay"

text \<open>
  \<^verbatim>\<open>Object.keys\<close>: the keys that are array indices (canonical decimal strings below
  \<open>2\<^sup>3\<^sup>2 - 1\<close>) in ascending numeric order, then the other keys in the order of their
  creation.
\<close>

definition is_array_index :: "string \<Rightarrow> bool" where
  "is_array_index s \<longleftrightarrow>
     s = digits_of (nat_of_digits s) \<and> int (nat_of_digits s) < 4294967295"

definition Object_keys :: "'v js_object \<Rightarrow> string list" where
  "Object_keys obj =
     sort_key nat_of_digits (filter is_array_index (map fst obj)) @
     filter (\<lambda>k. \<not> is_array_index k) (map fst obj)"

text \<open>\<^verbatim>\<open>Array.prototype.indexOf\<close>: the first index of the element, or \<open>-1\<close>.\<close>

definition indexOf :: "'a list \<Rightarrow> 'a \<Rightarrow> int" where
  "indexOf xs x = (if x \<in> set xs then int (length (takeWhile (\<lambda>y. y \<noteq> x) xs)) else - 1)"

text \<open>
  \<^verbatim>\<open>Array.prototype.sort\<close> with a comparator is stable: an element is placed before the
  first one it does not compare greater than, the later elements of the array first.
\<close>

fun insert_sorted :: "('a \<Rightarrow> 'a \<Rightarrow> int) \<Rightarrow> 'a \<Rightarrow> 'a list \<Rightarrow> 'a list" where
  "insert_sorted cmp x [] = [x]"
| "insert_sorted cmp x (y # ys) =
     (if cmp x y \<le> 0 then x # y # ys else y # insert_sorted cmp x ys)"

definition js_sort :: "('a \<Rightarrow> 'a \<Rightarrow> int) \<Rightarrow> 'a list \<Rightarrow> 'a list" where
  "js_sort cmp xs = foldr (insert_sorted cmp) xs []"

text \<open>The comparator of lines 432 to 436 and its \<^verbatim>\<open>order\<close> array.\<close>

definition time_order :: "string list" where
  "time_order =
     [''Ayunas'', Manana_Post_desayuno, ''Antes de Comer 13hs'', ''Tarde 18hs'', ''Noche'',
      ''Mensual'']"

definition compare_times :: "string \<Rightarrow> string \<Rightarrow> int" where
  "compare_times a b = indexOf time_order a - indexOf time_order b"

text \<open>
  The headings of the medication list, top to bottom:
  \<^verbatim>\<open>Object.keys(groupedMedications).sort(...)\<close> for the medications of the day.
\<close>

definition sorted_times :: "jsdate \<Rightarrow> medication list \<Rightarrow> js_error + string list" where
  "sorted_times currentDate medicationDefinitions =
     (case groupedMedications (getFilteredMedications currentDate medicationDefinitions) of
        Inl e \<Rightarrow> Inl e
      | Inr grouped \<Rightarrow> Inr (js_sort compare_times (Object_keys grouped)))"

text \<open>
  C1: the groups are ordered by \<^verbatim>\<open>order.indexOf(a) - order.indexOf(b)\<close>, and
  \<^verbatim>\<open>indexOf\<close> is \<open>-1\<close> for a time that \<^verbatim>\<open>order\<close> does not list: such a group is placed
  before every listed one, not after. With the default definitions, on 5 March 2024,
  the group \<^verbatim>\<open>Segun necesidad\<close> (u-acute) of the definitions \<^verbatim>\<open>miopropan\<close> and
  \<^verbatim>\<open>naproxeno\<close> comes first, above \<^verbatim>\<open>Ayunas\<close>. The listed times do follow
  \<^verbatim>\<open>order\<close>: definitions in the slots Noche, Ayunas, Manana Post desayuno are shown as
  Ayunas, Manana Post desayuno, Noche.
\<close>

theorem unlisted_time_sorts_first:
  "sorted_times (new_Date 2024 2 5) defaultMedications =
     Inr [Segun_necesidad, ''Ayunas'', Manana_Post_desayuno, ''Antes de Comer 13hs'',
          ''Tarde 18hs'', ''Noche''] \<and>
   indexOf time_order Segun_necesidad = - 1 \<and>
   compare_times Segun_necesidad ''Ayunas'' = - 1 \<and>
   sorted_times (new_Date 2024 2 5)
     [mk_med ''t4'' ''T4'' [] ''Ayunas'' Diario,
      mk_med ''miopropan'' ''Mipropan'' [] Segun_necesidad ''En caso de diarrea'']
     = Inr [Segun_necesidad, ''Ayunas''] \<and>
   sorted_times (new_Date 2024 2 5)
     [mk_med ''a'' ''A'' [] ''Noche'' Diario, mk_med ''b'' ''B'' [] ''Ayunas'' Diario,
      mk_med ''c'' ''C'' [] Manana_Post_desayuno Diario]
     = Inr [''Ayunas'', Manana_Post_desayuno, ''Noche'']"
  by code_simp

section \<open>Daily records: local state, remote store and JSON\<close>

record daily_note =
  note_text :: string
  note_author :: string
  note_timestamp :: string

record reading =
  systolic :: string
  diastolic :: string
  reading_author :: string
  reading_timestamp :: string

text \<open>
  The React state of \<^verbatim>\<open>App\<close> (lines 60 to 72), as far as the daily records use it.
  \<^verbatim>\<open>medicationStatus\<close> is a plain object from medication ids to booleans.
\<close>

record app_state =
  currentDate :: jsdate
  medicationStatus :: "bool js_object"
  dayNotes :: "daily_note list"
  bloodPressure :: "reading list"
  loading :: bool
  isAuthReady :: bool
  showNameInput :: bool
  showShareMessage :: bool

text \<open>
  What lies outside the component: the documents of the Firestore collection (a document
  is a map from field names to the stored strings), the browser console and the
  \<^verbatim>\<open>alert\<close> dialogs shown so far.
\<close>

datatype console_entry = Console_log string | Console_error string

type_synonym document = "string \<rightharpoonup> string"

record world =
  store :: "doc_ref \<rightharpoonup> document"
  console :: "console_entry list"
  alerts :: "string list"

text \<open>
  \<^verbatim>\<open>JSON.stringify\<close> and \<^verbatim>\<open>JSON.parse\<close> are built into the language; they are
  parameters of the model, one pair for each of the three shapes of value the source
  serializes. A parse returns \<open>Inl SyntaxError\<close> where \<^verbatim>\<open>JSON.parse\<close> throws.
\<close>

record json =
  stringify_status :: "bool js_object \<Rightarrow> string"
  stringify_notes :: "daily_note list \<Rightarrow> string"
  stringify_readings :: "reading list \<Rightarrow> string"
  parse_status :: "string \<Rightarrow> js_error + bool js_object"
  parse_notes :: "string \<Rightarrow> js_error + daily_note list"
  parse_readings :: "string \<Rightarrow> js_error + reading list"

text \<open>A value that \<^verbatim>\<open>updateDailyRecord\<close> is given, of one of the three shapes.\<close>

datatype field_value =
  Status_value "bool js_object"
| Notes_value "daily_note list"
| Readings_value "reading list"

definition JSON_stringify :: "json \<Rightarrow> field_value \<Rightarrow> string" where
  "JSON_stringify J v =
     (case v of
        Status_value m \<Rightarrow> stringify_status J m
      | Notes_value ns \<Rightarrow> stringify_notes J ns
      | Readings_value rs \<Rightarrow> stringify_readings J rs)"

text \<open>\<^verbatim>\<open>data.field || fallback\<close>: a missing field and the empty string are falsy.\<close>

definition or_default :: "string option \<Rightarrow> string \<Rightarrow> string" where
  "or_default field fallback =
     (case field of None \<Rightarrow> fallback | Some s \<Rightarrow> if s = [] then fallback else s)"

text \<open>
  The snapshot callback of the listener (lines 139 to 152). \<open>docSnap\<close> is \<open>None\<close> when
  \<^verbatim>\<open>docSnap.exists()\<close> is false. The result carries the exception that leaves the
  callback, if any: a \<^verbatim>\<open>JSON.parse\<close> that throws ends the callback after the setters
  that were already called.
\<close>

definition onSnapshot_callback ::
  "json \<Rightarrow> document option \<Rightarrow> app_state \<Rightarrow> app_state \<times> js_error option" where
  "onSnapshot_callback J docSnap s =
     (case docSnap of
        Some data \<Rightarrow>
          (case parse_status J (or_default (data ''medicationStatus'') ''{}'') of
             Inl e \<Rightarrow> (s, Some e)
           | Inr m \<Rightarrow>
               (case parse_notes J (or_default (data ''notes'') ''[]'') of
                  Inl e \<Rightarrow> (s\<lparr>medicationStatus := m\<rparr>, Some e)
                | Inr ns \<Rightarrow>
                    (case parse_readings J (or_default (data ''bloodPressure'') ''[]'') of
                       Inl e \<Rightarrow> (s\<lparr>medicationStatus := m, dayNotes := ns\<rparr>, Some e)
                     | Inr rs \<Rightarrow>
                         (s\<lparr>medicationStatus := m, dayNotes := ns, bloodPressure := rs,
                            loading := False\<rparr>, None))))
      | None \<Rightarrow>
          (s\<lparr>medicationStatus := [], dayNotes := [], bloodPressure := [], loading := False\<rparr>,
           None))"

text \<open>
  The effect that opens the listener (lines 132 to 162) does nothing before the
  identity is ready; otherwise Firestore calls the callback with the present content of
  the document of \<^verbatim>\<open>currentDate\<close>. \<open>observe\<close> is that first delivery.
\<close>

definition observe :: "json \<Rightarrow> string \<Rightarrow> world \<Rightarrow> app_state \<Rightarrow> app_state \<times> js_error option" where
  "observe J appId w s =
     (if \<not> isAuthReady s then (s, None)
      else onSnapshot_callback J (store w (dailyRecordDocRef appId (currentDate s))) s)"

text \<open>
  \<^verbatim>\<open>setDoc(ref, data, { merge: true })\<close>: the fields of \<open>data\<close> replace those of the
  document, its other fields stay, and a missing document is created. Whether the
  remote call succeeds is decided outside the program.
\<close>

datatype write_outcome = Write_succeeds | Write_fails

definition setDoc_merge ::
  "write_outcome \<Rightarrow> (doc_ref \<rightharpoonup> document) \<Rightarrow> doc_ref \<Rightarrow> document
     \<Rightarrow> js_error + (doc_ref \<rightharpoonup> document)" where
  "setDoc_merge outcome st ref data =
     (case outcome of
        Write_fails \<Rightarrow> Inl FirestoreError
      | Write_succeeds \<Rightarrow>
          Inr (st(ref \<mapsto> (case st ref of None \<Rightarrow> data | Some old \<Rightarrow> old ++ data))))"

text \<open>
  \<^verbatim>\<open>updateDailyRecord\<close> (lines 173 to 186). The result is \<open>Inl\<close> when the promise it
  returns is rejected.
\<close>

definition updateDailyRecord ::
  "json \<Rightarrow> string \<Rightarrow> write_outcome \<Rightarrow> app_state \<Rightarrow> string \<Rightarrow> field_value \<Rightarrow> world
     \<Rightarrow> js_error + world" where
  "updateDailyRecord J appId outcome s field val w =
     (if \<not> isAuthReady s
      then Inr (w\<lparr>console := console w @
             [Console_error ''Authentication not ready. Cannot save data.'']\<rparr>)
      else
        let formattedDate = formatDateForFirestore (currentDate s);
            ref = dailyRecordDocRef appId (currentDate s)
        in case setDoc_merge outcome (store w) ref
                  [field \<mapsto> JSON_stringify J val, ''date'' \<mapsto> formattedDate] of
             Inr st \<Rightarrow> Inr (w\<lparr>store := st\<rparr>)
           | Inl e \<Rightarrow>
               Inr (w\<lparr>console := console w @
                 [Console_error (''Error updating '' @ field @ '' in document: '')]\<rparr>))"

text \<open>
  Reading \<^verbatim>\<open>medicationStatus[medId]\<close> as a condition, as in \<^verbatim>\<open>!medicationStatus[medId]\<close>
  (line 192) and \<^verbatim>\<open>!!medicationStatus[med.id]\<close> (line 451): an own property gives its
  boolean, an inherited one is truthy, a missing one is \<^verbatim>\<open>undefined\<close>.
\<close>

definition truthy_at :: "bool js_object \<Rightarrow> string \<Rightarrow> bool" where
  "truthy_at obj k =
     (case map_of obj k of Some b \<Rightarrow> b | None \<Rightarrow> k \<in> set Object_prototype_keys)"

text \<open>\<^verbatim>\<open>{ ...obj, [k]: v }\<close>: an own property keeps its place, a new one comes last.\<close>

fun with_property :: "'v js_object \<Rightarrow> string \<Rightarrow> 'v \<Rightarrow> 'v js_object" where
  "with_property [] k v = [(k, v)]"
| "with_property ((k', v') # obj) k v =
     (if k' = k then (k, v) # obj else (k', v') # with_property obj k v)"

definition toggled :: "bool js_object \<Rightarrow> string \<Rightarrow> bool js_object" where
  "toggled status medId = with_property status medId (\<not> truthy_at status medId)"

text \<open>
  \<^verbatim>\<open>handleToggleMedication\<close> (lines 189 to 196): the state is set first, the write is
  started and not awaited.
\<close>

definition handleToggleMedication ::
  "json \<Rightarrow> string \<Rightarrow> write_outcome \<Rightarrow> string \<Rightarrow> app_state \<times> world
     \<Rightarrow> app_state \<times> (js_error + world)" where
  "handleToggleMedication J appId outcome medId sw =
     (let s = fst sw; w = snd sw;
          newStatus = toggled (medicationStatus s) medId
      in (s\<lparr>medicationStatus := newStatus\<rparr>,
          updateDailyRecord J appId outcome s ''medicationStatus'' (Status_value newStatus) w))"

section \<open>Toggling a medication\<close>

text \<open>
  The value of an id in a status mapping in the words of the data model: the absence
  of a key means "not checked".
\<close>

definition status_of :: "bool js_object \<Rightarrow> string \<Rightarrow> bool" where
  "status_of m x = (case map_of m x of Some b \<Rightarrow> b | None \<Rightarrow> False)"




lemma truthy_at_status_of: "x \<notin> set Object_prototype_keys \<Longrightarrow> truthy_at m x = status_of m x"
  by (simp add: truthy_at_def status_of_def split: option.splits)




section \<open>Loading a daily record\<close>

definition missing :: "string option \<Rightarrow> bool" where
  "missing field \<longleftrightarrow> field = None \<or> field = Some []"

text \<open>What \<^verbatim>\<open>JSON.parse\<close> returns for the two fallback literals of the callback.\<close>

definition json_defaults :: "json \<Rightarrow> bool" where
  "json_defaults J \<longleftrightarrow>
     parse_status J ''{}'' = Inr [] \<and> parse_notes J ''[]'' = Inr [] \<and>
     parse_readings J ''[]'' = Inr []"

definition load_status :: "json \<Rightarrow> document \<Rightarrow> js_error + bool js_object" where
  "load_status J data = parse_status J (or_default (data ''medicationStatus'') ''{}'')"

definition load_notes :: "json \<Rightarrow> document \<Rightarrow> js_error + daily_note list" where
  "load_notes J data = parse_notes J (or_default (data ''notes'') ''[]'')"

definition load_readings :: "json \<Rightarrow> document \<Rightarrow> js_error + reading list" where
  "load_readings J data = parse_readings J (or_default (data ''bloodPressure'') ''[]'')"

lemma or_default_missing: "missing field \<Longrightarrow> or_default field fallback = fallback"
  by (auto simp: missing_def or_default_def)

lemma onSnapshot_callback_loaded:
  assumes "load_status J data = Inr m" "load_notes J data = Inr ns"
    "load_readings J data = Inr rs"
  shows "onSnapshot_callback J (Some data) s =
    (s\<lparr>medicationStatus := m, dayNotes := ns, bloodPressure := rs, loading := False\<rparr>, None)"
  using assms
  by (simp add: onSnapshot_callback_def load_status_def load_notes_def load_readings_def)

lemma onSnapshot_callback_no_document:
  "onSnapshot_callback J None s =
    (s\<lparr>medicationStatus := [], dayNotes := [], bloodPressure := [], loading := False\<rparr>, None)"
  by (simp add: onSnapshot_callback_def)

lemma load_missing:
  assumes "json_defaults J"
  shows "missing (data ''medicationStatus'') \<Longrightarrow> load_status J data = Inr []"
    and "missing (data ''notes'') \<Longrightarrow> load_notes J data = Inr []"
    and "missing (data ''bloodPressure'') \<Longrightarrow> load_readings J data = Inr []"
  using assms
  by (simp_all add: json_defaults_def load_status_def load_notes_def load_readings_def
      or_default_missing)

lemma load_other_field:
  "g \<noteq> ''medicationStatus'' \<Longrightarrow> load_status J (data(g := x)) = load_status J data"
  "g \<noteq> ''notes'' \<Longrightarrow> load_notes J (data(g := x)) = load_notes J data"
  "g \<noteq> ''bloodPressure'' \<Longrightarrow> load_readings J (data(g := x)) = load_readings J data"
  by (simp_all add: load_status_def load_notes_def load_readings_def)

text \<open>A small JSON, enough to run the model on an example.\<close>

definition t4_checked_json :: string where
  "t4_checked_json = ''{'' @ [CHR 0x22] @ ''t4'' @ [CHR 0x22] @ '':true}''"

definition sample_json :: json where
  "sample_json =
     \<lparr>stringify_status = (\<lambda>m. if m = [(''t4'', True)] then t4_checked_json else ''{}''),
      stringify_notes = (\<lambda>ns. ''[]''),
      stringify_readings = (\<lambda>rs. ''[]''),
      parse_status = (\<lambda>s. if s = ''{}'' then Inr []
                           else if s = t4_checked_json then Inr [(''t4'', True)]
                           else Inl SyntaxError),
      parse_notes = (\<lambda>s. if s = ''[]'' then Inr [] else Inl SyntaxError),
      parse_readings = (\<lambda>s. if s = ''[]'' then Inr [] else Inl SyntaxError)\<rparr>"

definition sample_state :: app_state where
  "sample_state =
     \<lparr>currentDate = 1709640000000, medicationStatus = [], dayNotes = [], bloodPressure = [],
      loading = True, isAuthReady = True, showNameInput = False, showShareMessage = False\<rparr>"

definition empty_world :: world where
  "empty_world = \<lparr>store = Map.empty, console = [], alerts = []\<rparr>"

lemma json_defaults_sample: "json_defaults sample_json"
  by (simp add: json_defaults_def sample_json_def)

text \<open>
  C7: with no remote document the snapshot callback, and so the first delivery of the
  listener, sets the three fields to the empty mapping and the empty sequences. With a
  document, each field that is missing (or empty) is loaded as empty, each field is
  loaded from its own stored string only, and leaving a field out of the document
  changes nothing in what the two others load.
\<close>

theorem missing_record_and_fields_default:
  assumes "json_defaults J"
  shows "onSnapshot_callback J None s =
      (s\<lparr>medicationStatus := [], dayNotes := [], bloodPressure := [], loading := False\<rparr>, None) \<and>
    (isAuthReady s \<and> store w (dailyRecordDocRef appId (currentDate s)) = None \<longrightarrow>
      observe J appId w s =
        (s\<lparr>medicationStatus := [], dayNotes := [], bloodPressure := [], loading := False\<rparr>,
         None)) \<and>
    (\<forall>data m ns rs.
       load_status J data = Inr m \<and> load_notes J data = Inr ns \<and> load_readings J data = Inr rs
       \<longrightarrow>
       onSnapshot_callback J (Some data) s =
         (s\<lparr>medicationStatus := m, dayNotes := ns, bloodPressure := rs, loading := False\<rparr>,
          None) \<and>
       (missing (data ''medicationStatus'') \<longrightarrow> m = []) \<and>
       (missing (data ''notes'') \<longrightarrow> ns = []) \<and>
       (missing (data ''bloodPressure'') \<longrightarrow> rs = []) \<and>
       onSnapshot_callback J (Some (data(''medicationStatus'' := None))) s =
         (s\<lparr>medicationStatus := [], dayNotes := ns, bloodPressure := rs, loading := False\<rparr>,
          None) \<and>
       onSnapshot_callback J (Some (data(''notes'' := None))) s =
         (s\<lparr>medicationStatus := m, dayNotes := [], bloodPressure := rs, loading := False\<rparr>,
          None) \<and>
       onSnapshot_callback J (Some (data(''bloodPressure'' := None))) s =
         (s\<lparr>medicationStatus := m, dayNotes := ns, bloodPressure := [], loading := False\<rparr>,
          None))"
proof (intro conjI allI impI)
  show "onSnapshot_callback J None s =
      (s\<lparr>medicationStatus := [], dayNotes := [], bloodPressure := [], loading := False\<rparr>, None)"
    by (rule onSnapshot_callback_no_document)
next
  assume "isAuthReady s \<and> store w (dailyRecordDocRef appId (currentDate s)) = None"
  then show "observe J appId w s =
      (s\<lparr>medicationStatus := [], dayNotes := [], bloodPressure := [], loading := False\<rparr>, None)"
    by (simp add: observe_def onSnapshot_callback_no_document)
next
  fix data m ns rs
  assume a: "load_status J data = Inr m \<and> load_notes J data = Inr ns \<and>
    load_readings J data = Inr rs"
  note l = load_missing[OF assms, of data]
  show "onSnapshot_callback J (Some data) s =
      (s\<lparr>medicationStatus := m, dayNotes := ns, bloodPressure := rs, loading := False\<rparr>, None)"
    using a by (intro onSnapshot_callback_loaded) simp_all
  show "m = []" if "missing (data ''medicationStatus'')"
    using l(1)[OF that] a by simp
  show "ns = []" if "missing (data ''notes'')"
    using l(2)[OF that] a by simp
  show "rs = []" if "missing (data ''bloodPressure'')"
    using l(3)[OF that] a by simp
  have n1: "missing ((data(''medicationStatus'' := None)) ''medicationStatus'')"
    and n2: "missing ((data(''notes'' := None)) ''notes'')"
    and n3: "missing ((data(''bloodPressure'' := None)) ''bloodPressure'')"
    by (simp_all add: missing_def)
  show "onSnapshot_callback J (Some (data(''medicationStatus'' := None))) s =
      (s\<lparr>medicationStatus := [], dayNotes := ns, bloodPressure := rs, loading := False\<rparr>, None)"
    using a load_missing(1)[OF assms, of "data(''medicationStatus'' := None)", OF n1]
    by (intro onSnapshot_callback_loaded) (simp_all add: load_other_field)
  show "onSnapshot_callback J (Some (data(''notes'' := None))) s =
      (s\<lparr>medicationStatus := m, dayNotes := [], bloodPressure := rs, loading := False\<rparr>, None)"
    using a load_missing(2)[OF assms, of "data(''notes'' := None)", OF n2]
    by (intro onSnapshot_callback_loaded) (simp_all add: load_other_field)
  show "onSnapshot_callback J (Some (data(''bloodPressure'' := None))) s =
      (s\<lparr>medicationStatus := m, dayNotes := ns, bloodPressure := [], loading := False\<rparr>, None)"
    using a load_missing(3)[OF assms, of "data(''bloodPressure'' := None)", OF n3]
    by (intro onSnapshot_callback_loaded) (simp_all add: load_other_field)
qed

theorem missing_record_and_fields_default_witness:
  "json_defaults sample_json \<and>
   observe sample_json ''default-app-id'' empty_world sample_state =
     (sample_state\<lparr>medicationStatus := [], dayNotes := [], bloodPressure := [],
        loading := False\<rparr>, None) \<and>
   onSnapshot_callback sample_json (Some [''medicationStatus'' \<mapsto> t4_checked_json])
       sample_state =
     (sample_state\<lparr>medicationStatus := [(''t4'', True)], dayNotes := [], bloodPressure := [],
        loading := False\<rparr>, None)"
proof -
  note T = missing_record_and_fields_default[OF json_defaults_sample,
      of sample_state empty_world "''default-app-id''"]
  have r: "isAuthReady sample_state \<and>
      store empty_world (dailyRecordDocRef ''default-app-id'' (currentDate sample_state)) = None"
    by (simp add: sample_state_def empty_world_def)
  have o: "observe sample_json ''default-app-id'' empty_world sample_state =
     (sample_state\<lparr>medicationStatus := [], dayNotes := [], bloodPressure := [],
        loading := False\<rparr>, None)"
    using conjunct1[OF conjunct2[OF T]] r by (rule mp)
  let ?data = "[''medicationStatus'' \<mapsto> t4_checked_json]"
  have l: "load_status sample_json ?data = Inr [(''t4'', True)] \<and>
      load_notes sample_json ?data = Inr [] \<and> load_readings sample_json ?data = Inr []"
    by (simp add: load_status_def load_notes_def load_readings_def or_default_def
        sample_json_def t4_checked_json_def)
  have c: "onSnapshot_callback sample_json (Some ?data) sample_state =
     (sample_state\<lparr>medicationStatus := [(''t4'', True)], dayNotes := [], bloodPressure := [],
        loading := False\<rparr>, None)"
    using conjunct2[OF conjunct2[OF T], rule_format, OF l] by (rule conjunct1)
  show ?thesis
    using json_defaults_sample o c by (intro conjI)
qed

section \<open>Writing a field of a daily record\<close>

text \<open>The fields of a stored document; a document that does not exist has none.\<close>

definition stored_document :: "world \<Rightarrow> doc_ref \<Rightarrow> document" where
  "stored_document w ref = (case store w ref of None \<Rightarrow> Map.empty | Some data \<Rightarrow> data)"

text \<open>
  The world after a merge write of one field and the date, in the words of the
  specification: the two fields are put over the stored document of the date, and
  nothing else changes.
\<close>

definition written_world ::
  "json \<Rightarrow> string \<Rightarrow> app_state \<Rightarrow> string \<Rightarrow> field_value \<Rightarrow> world \<Rightarrow> world" where
  "written_world J appId s f v w =
     w\<lparr>store := (store w)(dailyRecordDocRef appId (currentDate s) \<mapsto>
        stored_document w (dailyRecordDocRef appId (currentDate s)) ++
          [f \<mapsto> JSON_stringify J v,
           ''date'' \<mapsto> formatDateForFirestore (currentDate s)])\<rparr>"

lemma updateDailyRecord_succeeds:
  assumes "isAuthReady s"
  shows "updateDailyRecord J appId Write_succeeds s f v w = Inr (written_world J appId s f v w)"
proof (cases "store w (dailyRecordDocRef appId (currentDate s))")
  case None
  with assms show ?thesis
    by (simp add: updateDailyRecord_def Let_def setDoc_merge_def written_world_def
        stored_document_def)
next
  case (Some old)
  with assms show ?thesis
    by (simp add: updateDailyRecord_def Let_def setDoc_merge_def written_world_def
        stored_document_def)
qed

lemma written_document:
  "stored_document (written_world J appId s f v w) (dailyRecordDocRef appId (currentDate s)) =
     stored_document w (dailyRecordDocRef appId (currentDate s)) ++
       [f \<mapsto> JSON_stringify J v, ''date'' \<mapsto> formatDateForFirestore (currentDate s)]"
  by (simp add: written_world_def stored_document_def)

lemma observe_written:
  assumes "isAuthReady s"
    and "load_status J (stored_document (written_world J appId s f v w)
          (dailyRecordDocRef appId (currentDate s))) = Inr m"
    and "load_notes J (stored_document (written_world J appId s f v w)
          (dailyRecordDocRef appId (currentDate s))) = Inr ns"
    and "load_readings J (stored_document (written_world J appId s f v w)
          (dailyRecordDocRef appId (currentDate s))) = Inr rs"
  shows "observe J appId (written_world J appId s f v w) s =
    (s\<lparr>medicationStatus := m, dayNotes := ns, bloodPressure := rs, loading := False\<rparr>, None)"
proof -
  have "store (written_world J appId s f v w) (dailyRecordDocRef appId (currentDate s)) =
      Some (stored_document (written_world J appId s f v w)
        (dailyRecordDocRef appId (currentDate s)))"
    by (simp add: written_world_def stored_document_def)
  then show ?thesis
    using assms(1) onSnapshot_callback_loaded[OF assms(2,3,4)]
    by (simp add: observe_def)
qed

lemma or_default_present: "x \<noteq> [] \<Longrightarrow> or_default (Some x) fallback = x"
  by (simp add: or_default_def)

lemma written_fields:
  assumes "f \<noteq> ''date''"
  shows "stored_document (written_world J appId s f v w)
        (dailyRecordDocRef appId (currentDate s)) f = Some (JSON_stringify J v)"
    and "stored_document (written_world J appId s f v w)
        (dailyRecordDocRef appId (currentDate s)) ''date''
      = Some (formatDateForFirestore (currentDate s))"
    and "g \<noteq> f \<Longrightarrow> g \<noteq> ''date'' \<Longrightarrow>
      stored_document (written_world J appId s f v w) (dailyRecordDocRef appId (currentDate s)) g
      = stored_document w (dailyRecordDocRef appId (currentDate s)) g"
  using assms by (simp_all add: written_document map_add_def)

text \<open>
  C3: when the identity is ready and the remote call succeeds, \<^verbatim>\<open>updateDailyRecord\<close>
  for the date \<open>d\<close> of the state, one of the three field names \<open>f\<close> and a value \<open>v\<close>
  leaves the world that a merge write leaves: in the document of \<open>d\<close> the field \<open>f\<close>
  holds the serialized \<open>v\<close> and \<^verbatim>\<open>date\<close> the formatted date, every other field of that
  document and every other document is as before, and nothing is logged or alerted.
  The first snapshot the listener then delivers for \<open>d\<close> loads \<open>v\<close> (where
  \<^verbatim>\<open>JSON.parse\<close> gives back what \<^verbatim>\<open>JSON.stringify\<close> was given, and the serialization is
  not the empty string) and loads the two other fields as they were stored before.
\<close>

theorem patch_merges_one_field:
  assumes "isAuthReady s"
    and "f \<in> {''medicationStatus'', ''notes'', ''bloodPressure''}"
    and "ref = dailyRecordDocRef appId (currentDate s)"
    and "w' = written_world J appId s f v w"
  shows "updateDailyRecord J appId Write_succeeds s f v w = Inr w' \<and>
    store w' ref \<noteq> None \<and>
    stored_document w' ref f = Some (JSON_stringify J v) \<and>
    stored_document w' ref ''date'' = Some (formatDateForFirestore (currentDate s)) \<and>
    (\<forall>g. g \<noteq> f \<and> g \<noteq> ''date'' \<longrightarrow> stored_document w' ref g = stored_document w ref g) \<and>
    (\<forall>r. r \<noteq> ref \<longrightarrow> store w' r = store w r) \<and>
    console w' = console w \<and> alerts w' = alerts w \<and>
    (\<forall>m ns rs.
       f = ''medicationStatus'' \<and> v = Status_value m \<and> stringify_status J m \<noteq> [] \<and>
       parse_status J (stringify_status J m) = Inr m \<and>
       load_notes J (stored_document w ref) = Inr ns \<and>
       load_readings J (stored_document w ref) = Inr rs \<longrightarrow>
       observe J appId w' s =
         (s\<lparr>medicationStatus := m, dayNotes := ns, bloodPressure := rs, loading := False\<rparr>,
          None)) \<and>
    (\<forall>m ns rs.
       f = ''notes'' \<and> v = Notes_value ns \<and> stringify_notes J ns \<noteq> [] \<and>
       parse_notes J (stringify_notes J ns) = Inr ns \<and>
       load_status J (stored_document w ref) = Inr m \<and>
       load_readings J (stored_document w ref) = Inr rs \<longrightarrow>
       observe J appId w' s =
         (s\<lparr>medicationStatus := m, dayNotes := ns, bloodPressure := rs, loading := False\<rparr>,
          None)) \<and>
    (\<forall>m ns rs.
       f = ''bloodPressure'' \<and> v = Readings_value rs \<and> stringify_readings J rs \<noteq> [] \<and>
       parse_readings J (stringify_readings J rs) = Inr rs \<and>
       load_status J (stored_document w ref) = Inr m \<and>
       load_notes J (stored_document w ref) = Inr ns \<longrightarrow>
       observe J appId w' s =
         (s\<lparr>medicationStatus := m, dayNotes := ns, bloodPressure := rs, loading := False\<rparr>,
          None))"
proof -
  have fd: "f \<noteq> ''date''" using assms(2) by auto
  note wf = written_fields[OF fd, where J = J and appId = appId and s = s and v = v and w = w,
      folded assms(3) assms(4)]
  have 1: "updateDailyRecord J appId Write_succeeds s f v w = Inr w'"
    unfolding assms(4) by (rule updateDailyRecord_succeeds[OF assms(1)])
  have 2: "store w' ref \<noteq> None"
    unfolding assms(3,4) by (simp add: written_world_def)
  have 3: "\<forall>g. g \<noteq> f \<and> g \<noteq> ''date'' \<longrightarrow> stored_document w' ref g = stored_document w ref g"
    using wf(3) by blast
  have 4: "\<forall>r. r \<noteq> ref \<longrightarrow> store w' r = store w r"
    unfolding assms(3,4) by (simp add: written_world_def)
  have 5: "console w' = console w" "alerts w' = alerts w"
    unfolding assms(4) by (simp_all add: written_world_def)
  note ob = observe_written[OF assms(1), where J = J and appId = appId and f = f and v = v
      and w = w, folded assms(3) assms(4)]
  have 6: "\<forall>m ns rs. f = ''medicationStatus'' \<and> v = Status_value m \<and> stringify_status J m \<noteq> [] \<and>
       parse_status J (stringify_status J m) = Inr m \<and>
       load_notes J (stored_document w ref) = Inr ns \<and>
       load_readings J (stored_document w ref) = Inr rs \<longrightarrow>
       observe J appId w' s =
         (s\<lparr>medicationStatus := m, dayNotes := ns, bloodPressure := rs, loading := False\<rparr>,
          None)"
  proof (intro allI impI, rule ob)
    fix m ns rs
    assume that: "f = ''medicationStatus'' \<and> v = Status_value m \<and> stringify_status J m \<noteq> [] \<and>
       parse_status J (stringify_status J m) = Inr m \<and>
       load_notes J (stored_document w ref) = Inr ns \<and>
       load_readings J (stored_document w ref) = Inr rs"
    show "load_status J (stored_document w' ref) = Inr m"
      using that wf(1) by (simp add: load_status_def or_default_present JSON_stringify_def)
    show "load_notes J (stored_document w' ref) = Inr ns"
      using that wf(3)[of "''notes''"] by (simp add: load_notes_def)
    show "load_readings J (stored_document w' ref) = Inr rs"
      using that wf(3)[of "''bloodPressure''"] by (simp add: load_readings_def)
  qed
  have 7: "\<forall>m ns rs. f = ''notes'' \<and> v = Notes_value ns \<and> stringify_notes J ns \<noteq> [] \<and>
       parse_notes J (stringify_notes J ns) = Inr ns \<and>
       load_status J (stored_document w ref) = Inr m \<and>
       load_readings J (stored_document w ref) = Inr rs \<longrightarrow>
       observe J appId w' s =
         (s\<lparr>medicationStatus := m, dayNotes := ns, bloodPressure := rs, loading := False\<rparr>,
          None)"
  proof (intro allI impI, rule ob)
    fix m ns rs
    assume that: "f = ''notes'' \<and> v = Notes_value ns \<and> stringify_notes J ns \<noteq> [] \<and>
       parse_notes J (stringify_notes J ns) = Inr ns \<and>
       load_status J (stored_document w ref) = Inr m \<and>
       load_readings J (stored_document w ref) = Inr rs"
    show "load_status J (stored_document w' ref) = Inr m"
      using that wf(3)[of "''medicationStatus''"] by (simp add: load_status_def)
    show "load_notes J (stored_document w' ref) = Inr ns"
      using that wf(1) by (simp add: load_notes_def or_default_present JSON_stringify_def)
    show "load_readings J (stored_document w' ref) = Inr rs"
      using that wf(3)[of "''bloodPressure''"] by (simp add: load_readings_def)
  qed
  have 8: "\<forall>m ns rs. f = ''bloodPressure'' \<and> v = Readings_value rs \<and> stringify_readings J rs \<noteq> [] \<and>
       parse_readings J (stringify_readings J rs) = Inr rs \<and>
       load_status J (stored_document w ref) = Inr m \<and>
       load_notes J (stored_document w ref) = Inr ns \<longrightarrow>
       observe J appId w' s =
         (s\<lparr>medicationStatus := m, dayNotes := ns, bloodPressure := rs, loading := False\<rparr>,
          None)"
  proof (intro allI impI, rule ob)
    fix m ns rs
    assume that: "f = ''bloodPressure'' \<and> v = Readings_value rs \<and> stringify_readings J rs \<noteq> [] \<and>
       parse_readings J (stringify_readings J rs) = Inr rs \<and>
       load_status J (stored_document w ref) = Inr m \<and>
       load_notes J (stored_document w ref) = Inr ns"
    show "load_status J (stored_document w' ref) = Inr m"
      using that wf(3)[of "''medicationStatus''"] by (simp add: load_status_def)
    show "load_notes J (stored_document w' ref) = Inr ns"
      using that wf(3)[of "''notes''"] by (simp add: load_notes_def)
    show "load_readings J (stored_document w' ref) = Inr rs"
      using that wf(1) by (simp add: load_readings_def or_default_present JSON_stringify_def)
  qed
  show ?thesis
    using 1 2 wf(1,2) 3 4 5 6 7 8 by (intro conjI)
qed

definition sample_ref :: doc_ref where
  "sample_ref = dailyRecordDocRef ''default-app-id'' (currentDate sample_state)"

definition sample_world :: world where
  "sample_world =
     \<lparr>store = [sample_ref \<mapsto> [''notes'' \<mapsto> ''[]'', ''date'' \<mapsto> ''2024-03-05'']],
      console = [], alerts = []\<rparr>"

definition sample_written :: world where
  "sample_written =
     written_world sample_json ''default-app-id'' sample_state ''medicationStatus''
       (Status_value [(''t4'', True)]) sample_world"

theorem patch_merges_one_field_witness:
  "isAuthReady sample_state \<and>
   updateDailyRecord sample_json ''default-app-id'' Write_succeeds sample_state
     ''medicationStatus'' (Status_value [(''t4'', True)]) sample_world = Inr sample_written \<and>
   stored_document sample_written sample_ref ''medicationStatus'' = Some t4_checked_json \<and>
   stored_document sample_written sample_ref ''notes'' = Some ''[]'' \<and>
   stored_document sample_written sample_ref ''bloodPressure'' = None \<and>
   observe sample_json ''default-app-id'' sample_written sample_state =
     (sample_state\<lparr>medicationStatus := [(''t4'', True)], dayNotes := [], bloodPressure := [],
        loading := False\<rparr>, None)"
proof -
  have r: "isAuthReady sample_state"
    by (simp add: sample_state_def)
  have f: "''medicationStatus'' \<in> {''medicationStatus'', ''notes'', ''bloodPressure''}"
    by simp
  note T = patch_merges_one_field[OF r f sample_ref_def sample_written_def]
  have 1: "updateDailyRecord sample_json ''default-app-id'' Write_succeeds sample_state
     ''medicationStatus'' (Status_value [(''t4'', True)]) sample_world = Inr sample_written"
    using T by (rule conjunct1)
  have 2: "stored_document sample_written sample_ref ''medicationStatus'' = Some t4_checked_json"
    using T by (simp add: JSON_stringify_def sample_json_def)
  have old: "stored_document sample_world sample_ref =
      [''notes'' \<mapsto> ''[]'', ''date'' \<mapsto> ''2024-03-05'']"
    by (simp add: stored_document_def sample_world_def)
  have 3: "stored_document sample_written sample_ref ''notes'' = Some ''[]''"
    "stored_document sample_written sample_ref ''bloodPressure'' = None"
    using T unfolding old by simp_all
  have l: "''medicationStatus'' = ''medicationStatus'' \<and>
      Status_value [(''t4'', True)] = Status_value [(''t4'', True)] \<and>
      stringify_status sample_json [(''t4'', True)] \<noteq> [] \<and>
      parse_status sample_json (stringify_status sample_json [(''t4'', True)])
        = Inr [(''t4'', True)] \<and>
      load_notes sample_json (stored_document sample_world sample_ref) = Inr [] \<and>
      load_readings sample_json (stored_document sample_world sample_ref) = Inr []"
    unfolding old
    by (simp add: sample_json_def t4_checked_json_def load_notes_def load_readings_def
        or_default_def)
  have 4: "observe sample_json ''default-app-id'' sample_written sample_state =
     (sample_state\<lparr>medicationStatus := [(''t4'', True)], dayNotes := [], bloodPressure := [],
        loading := False\<rparr>, None)"
    using T l by blast
  show ?thesis
    using r 1 2 3 4 by (intro conjI)
qed

section \<open>A write that fails\<close>

text \<open>
  C8: when the remote write fails, \<^verbatim>\<open>updateDailyRecord\<close> catches the error and logs it
  with \<^verbatim>\<open>console.error\<close>; the promise it returns is fulfilled, the store is as before
  (there is no second attempt), and the state that \<^verbatim>\<open>handleToggleMedication\<close> set before
  the write stays. Nothing is shown to the user: no \<^verbatim>\<open>alert\<close> is raised and no flag of
  the state changes, unlike in \<^verbatim>\<open>handleAddEditMedication\<close> and
  \<^verbatim>\<open>handleDeleteMedication\<close>, which alert when their write fails.
\<close>

theorem failed_write_is_only_logged:
  assumes "isAuthReady s"
  shows "updateDailyRecord J appId Write_fails s f v w =
      Inr (w\<lparr>console := console w @
        [Console_error (''Error updating '' @ f @ '' in document: '')]\<rparr>) \<and>
    handleToggleMedication J appId Write_fails medId (s, w) =
      (s\<lparr>medicationStatus := toggled (medicationStatus s) medId\<rparr>,
       Inr (w\<lparr>console := console w @
         [Console_error ''Error updating medicationStatus in document: '']\<rparr>)) \<and>
    alerts (w\<lparr>console := console w @
        [Console_error (''Error updating '' @ f @ '' in document: '')]\<rparr>) = alerts w \<and>
    store (w\<lparr>console := console w @
        [Console_error (''Error updating '' @ f @ '' in document: '')]\<rparr>) = store w \<and>
    showShareMessage (fst (handleToggleMedication J appId Write_fails medId (s, w)))
      = showShareMessage s \<and>
    showNameInput (fst (handleToggleMedication J appId Write_fails medId (s, w)))
      = showNameInput s"
  using assms
  by (simp add: updateDailyRecord_def handleToggleMedication_def setDoc_merge_def Let_def)

theorem failed_write_is_only_logged_witness:
  "isAuthReady sample_state \<and>
   handleToggleMedication sample_json ''default-app-id'' Write_fails ''t4''
       (sample_state, sample_world) =
     (sample_state\<lparr>medicationStatus := [(''t4'', True)]\<rparr>,
      Inr (sample_world\<lparr>console :=
        [Console_error ''Error updating medicationStatus in document: '']\<rparr>)) \<and>
   alerts (sample_world\<lparr>console :=
        [Console_error ''Error updating medicationStatus in document: '']\<rparr>) = []"
proof -
  have r: "isAuthReady sample_state"
    by (simp add: sample_state_def)
  have t: "toggled (medicationStatus sample_state) ''t4'' = [(''t4'', True)]"
    by (simp add: sample_state_def toggled_def truthy_at_def Object_prototype_keys_def)
  have c: "console sample_world = []" "alerts sample_world = []"
    by (simp_all add: sample_world_def)
  show ?thesis
    using failed_write_is_only_logged[OF r, of sample_json "''default-app-id''"
        "''medicationStatus''" "Status_value [(''t4'', True)]" sample_world "''t4''"] r t c
    by simp
qed

end
